theory Spec2Isabelle
  imports Complex_Main
begin

section \<open>Exceptions and results\<close>

text \<open>
  The server is asynchronous TypeScript. Every \<^verbatim>\<open>async\<close> function is modelled as a
  function from the state it touches to a result and the state it leaves behind. A
  rejected promise or a thrown exception is the \<open>Inl\<close> branch of the result; state
  changes made before the throw stay in the returned state, as they do in JavaScript.
\<close>

datatype exn =
    Error string    \<comment> \<open>\<^verbatim>\<open>new Error(msg)\<close> thrown by the server's own code\<close>
  | TypeError       \<comment> \<open>property access on \<^verbatim>\<open>undefined\<close> or \<^verbatim>\<open>null\<close>\<close>
  | AxiosError      \<comment> \<open>\<^verbatim>\<open>axios.get\<close> rejected: transport error, timeout, non-2xx status\<close>
  | RequestError    \<comment> \<open>the SQL driver rejected a query\<close>
  | ProbeError      \<comment> \<open>a probe of the operating system rejected\<close>

section \<open>The persistent store\<close>

text \<open>
  Table \<^verbatim>\<open>dbo.swap\<close> has the columns \<^verbatim>\<open>isp\<close>, \<^verbatim>\<open>ip\<close>, \<^verbatim>\<open>timestamp\<close> (default: the
  database server's clock at the insert) and \<^verbatim>\<open>uplink\<close> (a TINYINT, default 1), and an
  identity column \<^verbatim>\<open>id\<close> that no statement of the server reads. The table is a list of
  rows in insertion order; rows are never deleted. Timestamps are instants of the
  database clock. Strings are compared exactly, in SQL as in JavaScript.
\<close>

record swap_row =
  row_isp :: string
  row_ip :: string
  row_timestamp :: int
  uplink :: nat

record gateway_row =
  status :: string
  gw_timestamp :: int

text \<open>The SQL statements the server sends, kept as a trace of what was attempted.\<close>

datatype statement =
    SelectLastLog                \<comment> \<open>\<^verbatim>\<open>SELECT TOP 1 isp, ip FROM swap ORDER BY timestamp DESC\<close>\<close>
  | UpdateUplink string          \<comment> \<open>\<^verbatim>\<open>UPDATE swap SET uplink = 0 WHERE isp = @oldIsp AND uplink = 1\<close>\<close>
  | InsertSwap string string     \<comment> \<open>\<^verbatim>\<open>INSERT INTO swap (isp, ip, uplink) VALUES (@isp, @ip, 1)\<close>\<close>
  | InsertGatewayLog string      \<comment> \<open>\<^verbatim>\<open>INSERT INTO dbo.gateway_log (status) VALUES (@status)\<close>\<close>
  | SelectTimestamp              \<comment> \<open>\<^verbatim>\<open>SELECT FORMAT(SYSDATETIMEOFFSET() ...) as timestamp\<close>\<close>

text \<open>
  \<open>pool\<close> is the module variable \<^verbatim>\<open>pool\<close>: \<open>False\<close> while it is still undefined.
  \<open>statements\<close> and \<open>console_errors\<close> are traces: every statement handed to the
  driver, whether it succeeded or not, and every exception printed with
  \<^verbatim>\<open>console.error\<close> by the two persistence tasks.
\<close>

record store =
  pool :: bool
  swap :: "swap_row list"
  gateway_log :: "gateway_row list"
  statements :: "statement list"
  console_errors :: "exn list"

text \<open>
  What the database server does during one call: the reading of its clock that stamps an
  inserted row, and which of the statements it rejects.
\<close>

record db_env =
  db_now :: int
  select_fails :: bool
  update_fails :: bool
  insert_fails :: bool

text \<open>
  \<^verbatim>\<open>SELECT TOP 1 ... ORDER BY timestamp DESC\<close>: a row with the greatest timestamp. SQL
  leaves the choice among equal timestamps open; \<open>newest\<close> keeps the earlier row.
\<close>

fun newest :: "swap_row option \<Rightarrow> swap_row list \<Rightarrow> swap_row option" where
  "newest best [] = best"
| "newest None (r # rs) = newest (Some r) rs"
| "newest (Some b) (r # rs) =
     newest (if row_timestamp b < row_timestamp r then Some r else Some b) rs"

definition send :: "statement \<Rightarrow> store \<Rightarrow> store" where
  "send q db = db\<lparr>statements := statements db @ [q]\<rparr>"

definition select_last_log :: "db_env \<Rightarrow> store \<Rightarrow> (exn + swap_row option) \<times> store" where
  "select_last_log env db =
     (let db' = send SelectLastLog db
      in if select_fails env then (Inl RequestError, db')
         else (Inr (newest None (swap db')), db'))"

text \<open>The effect of \<^verbatim>\<open>UPDATE swap SET uplink = 0 WHERE isp = @oldIsp AND uplink = 1\<close>.\<close>

definition deactivate :: "string \<Rightarrow> swap_row list \<Rightarrow> swap_row list" where
  "deactivate oldIsp rows =
     map (\<lambda>r. if row_isp r = oldIsp \<and> uplink r = 1 then r\<lparr>uplink := 0\<rparr> else r) rows"

definition update_uplink :: "db_env \<Rightarrow> string \<Rightarrow> store \<Rightarrow> (exn + unit) \<times> store" where
  "update_uplink env oldIsp db =
     (let db' = send (UpdateUplink oldIsp) db
      in if update_fails env then (Inl RequestError, db')
         else (Inr (), db'\<lparr>swap := deactivate oldIsp (swap db')\<rparr>))"

definition insert_swap :: "db_env \<Rightarrow> string \<Rightarrow> string \<Rightarrow> store \<Rightarrow> (exn + unit) \<times> store" where
  "insert_swap env newIsp newIp db =
     (let db' = send (InsertSwap newIsp newIp) db
      in if insert_fails env then (Inl RequestError, db')
         else (Inr (),
               db'\<lparr>swap := swap db' @
                  [\<lparr>row_isp = newIsp, row_ip = newIp, row_timestamp = db_now env, uplink = 1\<rparr>]\<rparr>))"

section \<open>ChangeDetector: checkAndLogIspChange\<close>

text \<open>The body of the \<^verbatim>\<open>try\<close> block.\<close>

definition checkAndLogIspChange_try ::
  "db_env \<Rightarrow> string \<Rightarrow> string \<Rightarrow> store \<Rightarrow> (exn + unit) \<times> store" where
  "checkAndLogIspChange_try env newIsp newIp db =
     (if \<not> pool db then (Inl (Error ''Database connection not initialized''), db)
      else case select_last_log env db of
        (Inl e, db1) \<Rightarrow> (Inl e, db1)
      | (Inr lastLog, db1) \<Rightarrow>
          (if lastLog = None \<or> row_isp (the lastLog) \<noteq> newIsp then
             (case (if lastLog \<noteq> None then update_uplink env (row_isp (the lastLog)) db1
                    else (Inr (), db1)) of
                (Inl e, db2) \<Rightarrow> (Inl e, db2)
              | (Inr _, db2) \<Rightarrow> insert_swap env newIsp newIp db2)
           else (Inr (), db1)))"

text \<open>The \<^verbatim>\<open>catch\<close> prints the exception and returns normally.\<close>

definition checkAndLogIspChange ::
  "db_env \<Rightarrow> string \<Rightarrow> string \<Rightarrow> store \<Rightarrow> (exn + unit) \<times> store" where
  "checkAndLogIspChange env newIsp newIp db =
     (case checkAndLogIspChange_try env newIsp newIp db of
        (Inl err, db') \<Rightarrow> (Inr (), db'\<lparr>console_errors := console_errors db' @ [err]\<rparr>)
      | (Inr u, db') \<Rightarrow> (Inr u, db'))"

text \<open>
  A sequence of observed identities, handed to \<open>checkAndLogIspChange\<close> one call after
  the other; each comes with what the database does during its call.
\<close>

record observation =
  obs_env :: db_env
  obs_isp :: string
  obs_ip :: string

fun observe_all :: "observation list \<Rightarrow> store \<Rightarrow> store" where
  "observe_all [] db = db"
| "observe_all (ob # obs) db =
     observe_all obs (snd (checkAndLogIspChange (obs_env ob) (obs_isp ob) (obs_ip ob) db))"

section \<open>GatewayProbe: logGatewayStatus and the status route\<close>

text \<open>
  \<^verbatim>\<open>ping.promise.probe\<close> resolves with a flag \<^verbatim>\<open>alive\<close>; a gateway that does not answer
  within the timeout gives \<^verbatim>\<open>alive = false\<close>. The promise can also reject (no ping
  binary, bad arguments): that is the \<open>Inl\<close> branch of \<open>probe_result\<close>.
\<close>

record gateway_env =
  probe_result :: "exn + bool"
  gw_now :: int
  first_insert_fails :: bool
  fallback_insert_fails :: bool

definition insert_gateway_log :: "bool \<Rightarrow> int \<Rightarrow> string \<Rightarrow> store \<Rightarrow> (exn + unit) \<times> store" where
  "insert_gateway_log fails now st db =
     (let db' = send (InsertGatewayLog st) db
      in if fails then (Inl RequestError, db')
         else (Inr (), db'\<lparr>gateway_log := gateway_log db' @ [\<lparr>status = st, gw_timestamp = now\<rparr>]\<rparr>))"

text \<open>The body of the outer \<^verbatim>\<open>try\<close> block of \<^verbatim>\<open>logGatewayStatus\<close>.\<close>

definition logGatewayStatus_try :: "gateway_env \<Rightarrow> store \<Rightarrow> (exn + unit) \<times> store" where
  "logGatewayStatus_try env db =
     (case probe_result env of
        Inl e \<Rightarrow> (Inl e, db)
      | Inr alive \<Rightarrow>
          insert_gateway_log (first_insert_fails env) (gw_now env)
            (if alive then ''up'' else ''down'') db)"

definition logGatewayStatus :: "gateway_env \<Rightarrow> store \<Rightarrow> (exn + unit) \<times> store" where
  "logGatewayStatus env db =
     (if \<not> pool db then (Inr (), db)
      else case logGatewayStatus_try env db of
        (Inr u, db1) \<Rightarrow> (Inr (), db1)
      | (Inl error, db1) \<Rightarrow>
          (case insert_gateway_log (fallback_insert_fails env) (gw_now env) ''down'' db1 of
             (Inr u, db2) \<Rightarrow> (Inr (), db2)
           | (Inl dbError, db2) \<Rightarrow>
               (Inr (), db2\<lparr>console_errors := console_errors db2 @ [dbError]\<rparr>)))"

text \<open>
  The handler of \<^verbatim>\<open>GET /api/gateway-status\<close>: the HTTP status code and the \<^verbatim>\<open>status\<close>
  field of the JSON body.
\<close>

definition gateway_status_route :: "exn + bool \<Rightarrow> nat \<times> string" where
  "gateway_status_route probe =
     (case probe of
        Inr alive \<Rightarrow> (200, if alive then ''up'' else ''down'')
      | Inl error \<Rightarrow> (500, ''down''))"

section \<open>Identity records and provider replies\<close>

text \<open>
  The fields of an identity record that the dashboard declares. A field holds a string
  or number taken from a provider's JSON reply, or is \<^verbatim>\<open>undefined\<close> (\<open>None\<close>) when
  the reply lacks it. Some providers add further keys (\<^verbatim>\<open>countryCode\<close>, \<^verbatim>\<open>asn\<close>,
  \<^verbatim>\<open>isProxy\<close>, ...) that nothing reads; they are left out.
\<close>

record IdentityRecord =
  ip :: "string option"
  country :: "string option"
  region :: "string option"
  city :: "string option"
  isp :: "string option"
  latitude :: "real option"
  longitude :: "real option"
  organization :: "string option"
  timezone :: "string option"
  source :: string

text \<open>JavaScript truthiness of a value that is a string or \<^verbatim>\<open>undefined\<close>.\<close>

definition truthy :: "string option \<Rightarrow> bool" where
  "truthy v = (case v of None \<Rightarrow> False | Some str \<Rightarrow> str \<noteq> [])"

text \<open>The parts of \<^verbatim>\<open>response.data\<close> that each provider function reads.\<close>

record ip_api_data =
  ia_status :: "string option"
  ia_query :: "string option"
  ia_country :: "string option"
  ia_regionName :: "string option"
  ia_city :: "string option"
  ia_isp :: "string option"
  ia_lat :: "real option"
  ia_lon :: "real option"
  ia_org :: "string option"
  ia_timezone :: "string option"

record free_ip_api_data =
  fa_ipAddress :: "string option"
  fa_countryName :: "string option"
  fa_regionName :: "string option"
  fa_cityName :: "string option"
  fa_asnOrganization :: "string option"
  fa_latitude :: "real option"
  fa_longitude :: "real option"
  fa_timeZones :: "string list option"

record who_connection =
  cn_isp :: "string option"
  cn_org :: "string option"

record who_timezone =
  tz_id :: "string option"

record ip_who_is_data =
  wi_ip :: "string option"
  wi_country :: "string option"
  wi_region :: "string option"
  wi_city :: "string option"
  wi_connection :: "who_connection option"
  wi_latitude :: "real option"
  wi_longitude :: "real option"
  wi_timezone :: "who_timezone option"

record ipify_data =
  fy_ip :: "string option"

record ipapi_co_data =
  co_ip :: "string option"
  co_country_name :: "string option"
  co_region :: "string option"
  co_city :: "string option"
  co_org :: "string option"
  co_latitude :: "real option"
  co_longitude :: "real option"
  co_timezone :: "string option"

text \<open>
  One \<^verbatim>\<open>axios.get\<close>: the promise rejects or resolves with a body, \<open>took\<close> milliseconds
  after the request was sent.
\<close>

datatype 'b reply = Rejected | Replied 'b

record 'b exchange =
  took :: nat
  reply :: "'b reply"

text \<open>What the network does during one call of \<^verbatim>\<open>getPublicIpInfo\<close>.\<close>

record net_env =
  ipApi_x :: "ip_api_data exchange"
  freeIpApi_x :: "free_ip_api_data exchange"
  ipWhoIs_x :: "ip_who_is_data exchange"
  ipify_x :: "ipify_data exchange"
  ipapiCo_x :: "ipapi_co_data exchange"

section \<open>RateLimiter and ProviderClient\<close>

record CacheEntry =
  data :: IdentityRecord
  cache_timestamp :: int

record request =
  url :: string
  sent_at :: int

text \<open>
  The module variables of the resolver. \<open>clock\<close> is what \<^verbatim>\<open>Date.now()\<close> returns, in
  milliseconds; waiting on a timer or on a reply moves it forward. \<open>requests\<close> is a
  trace of every \<^verbatim>\<open>axios.get\<close> with the time it was sent.
\<close>

record resolver_state =
  clock :: int
  lastIpApiCall :: int
  lastFreeIpApiCall :: int
  lastIpWhoIsCall :: int
  lastIpifyCall :: int
  cachedIpInfo :: "CacheEntry option"
  requests :: "request list"

record config =
  CACHE_DURATION :: int
  METRICS_INTERVAL :: int
  ISP_CHECK_INTERVAL :: int

definition default_config :: config where
  "default_config = \<lparr>CACHE_DURATION = 30000, METRICS_INTERVAL = 5000, ISP_CHECK_INTERVAL = 30000\<rparr>"

datatype service = IpApi | FreeIpApi | IpWhoIs | Ipify

fun API_RATE_LIMITS :: "service \<Rightarrow> int" where
  "API_RATE_LIMITS IpApi = 1000"
| "API_RATE_LIMITS FreeIpApi = 1000"
| "API_RATE_LIMITS IpWhoIs = 1000"
| "API_RATE_LIMITS Ipify = 1000"

text \<open>\<^verbatim>\<open>await new Promise(resolve => setTimeout(resolve, ms))\<close>\<close>

definition sleep :: "int \<Rightarrow> resolver_state \<Rightarrow> resolver_state" where
  "sleep ms s = s\<lparr>clock := clock s + ms\<rparr>"

definition axios_get :: "string \<Rightarrow> 'b exchange \<Rightarrow> resolver_state \<Rightarrow> 'b reply \<times> resolver_state" where
  "axios_get u x s =
     (reply x,
      s\<lparr>requests := requests s @ [\<lparr>url = u, sent_at = clock s\<rparr>],
        clock := clock s + int (took x)\<rparr>)"

text \<open>The gate every provider function opens with.\<close>

definition rate_gate :: "int \<Rightarrow> int \<Rightarrow> resolver_state \<Rightarrow> resolver_state" where
  "rate_gate lastCall limit s =
     (let now = clock s; timeSinceLastCall = now - lastCall
      in if timeSinceLastCall < limit then sleep (limit - timeSinceLastCall) s else s)"

definition getIpApiInfo :: "net_env \<Rightarrow> resolver_state \<Rightarrow> (exn + IdentityRecord) \<times> resolver_state" where
  "getIpApiInfo env s =
     (case axios_get ''https://ip-api.com/json/'' (ipApi_x env)
             (rate_gate (lastIpApiCall s) (API_RATE_LIMITS IpApi) s) of
        (Rejected, s1) \<Rightarrow> (Inl AxiosError, s1)
      | (Replied d, s1) \<Rightarrow>
          if ia_status d = Some ''success'' then
            (Inr \<lparr>ip = ia_query d, country = ia_country d, region = ia_regionName d,
                  city = ia_city d, isp = ia_isp d, latitude = ia_lat d, longitude = ia_lon d,
                  organization = ia_org d, timezone = ia_timezone d, source = ''ip-api.com''\<rparr>,
             s1\<lparr>lastIpApiCall := clock s1\<rparr>)
          else (Inl (Error ''IP API request failed''), s1))"

definition getFreeIpApiInfo :: "net_env \<Rightarrow> resolver_state \<Rightarrow> (exn + IdentityRecord) \<times> resolver_state" where
  "getFreeIpApiInfo env s =
     (case axios_get ''https://freeipapi.com/api/json'' (freeIpApi_x env)
             (rate_gate (lastFreeIpApiCall s) (API_RATE_LIMITS FreeIpApi) s) of
        (Rejected, s1) \<Rightarrow> (Inl AxiosError, s1)
      | (Replied d, s1) \<Rightarrow>
          (let s2 = s1\<lparr>lastFreeIpApiCall := clock s1\<rparr>
           in case fa_timeZones d of
                None \<Rightarrow> (Inl TypeError, s2)
              | Some zones \<Rightarrow>
                  (Inr \<lparr>ip = fa_ipAddress d, country = fa_countryName d, region = fa_regionName d,
                        city = fa_cityName d,
                        isp = (if truthy (fa_asnOrganization d) then fa_asnOrganization d
                               else Some ''N/A''),
                        latitude = fa_latitude d, longitude = fa_longitude d,
                        organization = fa_asnOrganization d,
                        timezone = (case zones of [] \<Rightarrow> None | z # _ \<Rightarrow> Some z),
                        source = ''freeipapi.com''\<rparr>,
                   s2)))"

definition getIpWhoIsInfo :: "net_env \<Rightarrow> resolver_state \<Rightarrow> (exn + IdentityRecord) \<times> resolver_state" where
  "getIpWhoIsInfo env s =
     (case axios_get ''https://ipwho.is'' (ipWhoIs_x env)
             (rate_gate (lastIpWhoIsCall s) (API_RATE_LIMITS IpWhoIs) s) of
        (Rejected, s1) \<Rightarrow> (Inl AxiosError, s1)
      | (Replied d, s1) \<Rightarrow>
          (let s2 = s1\<lparr>lastIpWhoIsCall := clock s1\<rparr>
           in case (wi_connection d, wi_timezone d) of
                (Some conn, Some tz) \<Rightarrow>
                  (Inr \<lparr>ip = wi_ip d, country = wi_country d, region = wi_region d,
                        city = wi_city d, isp = cn_isp conn,
                        latitude = wi_latitude d, longitude = wi_longitude d,
                        organization = cn_org conn, timezone = tz_id tz,
                        source = ''ipwho.is''\<rparr>,
                   s2)
              | _ \<Rightarrow> (Inl TypeError, s2)))"

definition getIpifyInfo :: "net_env \<Rightarrow> resolver_state \<Rightarrow> (exn + IdentityRecord) \<times> resolver_state" where
  "getIpifyInfo env s =
     (case axios_get ''https://api.ipify.org?format=json'' (ipify_x env)
             (rate_gate (lastIpifyCall s) (API_RATE_LIMITS Ipify) s) of
        (Rejected, s1) \<Rightarrow> (Inl AxiosError, s1)
      | (Replied ipResponse, s1) \<Rightarrow>
          (case axios_get (''https://ipapi.co/''
                            @ (case fy_ip ipResponse of None \<Rightarrow> ''undefined'' | Some a \<Rightarrow> a)
                            @ ''/json/'') (ipapiCo_x env) s1 of
             (Rejected, s2) \<Rightarrow> (Inl AxiosError, s2)
           | (Replied d, s2) \<Rightarrow>
               (Inr \<lparr>ip = co_ip d, country = co_country_name d, region = co_region d,
                     city = co_city d, isp = co_org d,
                     latitude = co_latitude d, longitude = co_longitude d,
                     organization = co_org d, timezone = co_timezone d,
                     source = ''ipify.org + ipapi.co''\<rparr>,
                s2\<lparr>lastIpifyCall := clock s2\<rparr>)))"

section \<open>IpResolver: getPublicIpInfo\<close>

text \<open>The list \<^verbatim>\<open>apiServices\<close>, in the order it is written, with its \<^verbatim>\<open>name\<close> and \<^verbatim>\<open>fn\<close>.\<close>

definition apiServices :: "service list" where
  "apiServices = [IpApi, FreeIpApi, IpWhoIs, Ipify]"

fun service_name :: "service \<Rightarrow> string" where
  "service_name IpApi = ''ip-api.com''"
| "service_name FreeIpApi = ''freeipapi.com''"
| "service_name IpWhoIs = ''ipwho.is''"
| "service_name Ipify = ''ipify.org''"

fun service_fn ::
  "service \<Rightarrow> net_env \<Rightarrow> resolver_state \<Rightarrow> (exn + IdentityRecord) \<times> resolver_state" where
  "service_fn IpApi = getIpApiInfo"
| "service_fn FreeIpApi = getFreeIpApiInfo"
| "service_fn IpWhoIs = getIpWhoIsInfo"
| "service_fn Ipify = getIpifyInfo"

definition mock_info :: IdentityRecord where
  "mock_info =
     \<lparr>ip = Some ''000.000.000.000'', country = Some ''Unknown'', region = Some ''Unknown'',
      city = Some ''Unknown'', isp = Some ''Unknown'', latitude = Some 0, longitude = Some 0,
      organization = Some ''Unknown'', timezone = Some ''Unknown'', source = ''mock''\<rparr>"

text \<open>
  The \<^verbatim>\<open>for\<close> loop over the services: the first one that returns fills the cache,
  stamped with the time \<open>now\<close> read when \<^verbatim>\<open>getPublicIpInfo\<close> was entered; one that
  throws is skipped. \<open>None\<close> is the loop running off its end.
\<close>

fun try_services ::
  "int \<Rightarrow> service list \<Rightarrow> net_env \<Rightarrow> resolver_state \<Rightarrow> IdentityRecord option \<times> resolver_state" where
  "try_services now [] env s = (None, s)"
| "try_services now (svc # rest) env s =
     (case service_fn svc env s of
        (Inr d, s') \<Rightarrow> (Some d, s'\<lparr>cachedIpInfo := Some \<lparr>data = d, cache_timestamp = now\<rparr>\<rparr>)
      | (Inl error, s') \<Rightarrow> try_services now rest env s')"

definition getPublicIpInfo ::
  "config \<Rightarrow> net_env \<Rightarrow> resolver_state \<Rightarrow> (exn + IdentityRecord) \<times> resolver_state" where
  "getPublicIpInfo cfg env s =
     (let now = clock s
      in if cachedIpInfo s \<noteq> None
            \<and> now - cache_timestamp (the (cachedIpInfo s)) < CACHE_DURATION cfg
         then (Inr (data (the (cachedIpInfo s))), s)
         else case try_services now apiServices env s of
                (Some d, s') \<Rightarrow> (Inr d, s')
              | (None, s') \<Rightarrow>
                  if cachedIpInfo s' \<noteq> None then (Inr (data (the (cachedIpInfo s'))), s')
                  else (Inr mock_info, s'))"


section \<open>MetricsAggregator: getMetricsWithRetry and getNetworkMetrics\<close>

text \<open>
  The \<^verbatim>\<open>for\<close> loop of \<^verbatim>\<open>getMetricsWithRetry\<close>, entered with loop variable \<open>i\<close>. \<open>fn\<close> is
  the wrapped call, run on the state \<open>s\<close> it touches; \<open>pause\<close> is the wait between two
  attempts. Leaving the loop without a \<^verbatim>\<open>return\<close> gives \<^verbatim>\<open>undefined\<close>: \<open>Inr None\<close>.
\<close>

function getMetricsWithRetry_loop ::
  "(int \<Rightarrow> 's \<Rightarrow> 's) \<Rightarrow> ('s \<Rightarrow> (exn + 'a) \<times> 's) \<Rightarrow> nat \<Rightarrow> nat \<Rightarrow> 's
   \<Rightarrow> (exn + 'a option) \<times> 's" where
  "getMetricsWithRetry_loop pause fn retries i s =
     (if i < retries then
        (case fn s of
           (Inr v, s') \<Rightarrow> (Inr (Some v), s')
         | (Inl error, s') \<Rightarrow>
             if i = retries - 1 then (Inl error, s')
             else getMetricsWithRetry_loop pause fn retries (i + 1)
                    (pause (1000 * (int i + 1)) s'))
      else (Inr None, s))"
  by pat_completeness auto
termination
  by (relation "measure (\<lambda>(pause, fn, retries, i, s). retries - i)") auto

declare getMetricsWithRetry_loop.simps [simp del]

text \<open>Every call site leaves \<^verbatim>\<open>retries\<close> at its default of 3.\<close>

definition getMetricsWithRetry ::
  "(int \<Rightarrow> 's \<Rightarrow> 's) \<Rightarrow> ('s \<Rightarrow> (exn + 'a) \<times> 's) \<Rightarrow> 's \<Rightarrow> (exn + 'a option) \<times> 's" where
  "getMetricsWithRetry pause fn s = getMetricsWithRetry_loop pause fn 3 0 s"

text \<open>
  A probe of the operating system (\<^verbatim>\<open>si.networkStats()\<close> and the like) touches no state
  of the server. Its answers are given per attempt: \<open>answers k\<close> is what the \<open>k\<close>-th call
  of this cycle returns or throws, and the state threaded through the retry loop is the
  number of calls made.
\<close>

definition probe :: "(nat \<Rightarrow> exn + 'a) \<Rightarrow> nat \<Rightarrow> (exn + 'a) \<times> nat" where
  "probe answers k = (answers k, Suc k)"

definition probe_with_retry :: "(nat \<Rightarrow> exn + 'a) \<Rightarrow> exn + 'a option" where
  "probe_with_retry answers = fst (getMetricsWithRetry (\<lambda>ms k. k) (probe answers) 0)"

text \<open>
  What the probes return, as far as it is read; the objects are taken to have the
  documented shape. Numbers are reals: the rounding of doubles is outside the model (and
  so is a division by a \<^verbatim>\<open>total\<close> of zero, which gives \<^verbatim>\<open>NaN\<close> or \<^verbatim>\<open>Infinity\<close> in
  JavaScript).
\<close>

record net_iface =
  rx_sec :: real
  tx_sec :: real
  rx_bytes :: real
  tx_bytes :: real

record load_data =
  currentLoad :: real

record mem_data =
  mem_used :: real
  mem_total :: real

record time_data =
  si_uptime :: real

text \<open>
  The snapshot. The source renders most numbers with \<^verbatim>\<open>toFixed(2)\<close>; the model keeps the
  number that is rendered. \<open>latency = None\<close> stands for the string \<^verbatim>\<open>'N/A'\<close>.
\<close>

record SystemMetrics =
  cpuLoad :: real
  memoryUsed :: real
  uptime :: int

record NetworkMetrics =
  downloadSpeed :: real
  uploadSpeed :: real
  totalDownload :: real
  totalUpload :: real
  latency :: "real option"

record MetricsSnapshot =
  timestamp :: string
  publicIpInfo :: "IdentityRecord option"
  systemMetrics :: SystemMetrics
  networkMetrics :: NetworkMetrics

record server =
  resolver :: resolver_state
  database :: store
  lastIspCheck :: int
  currentMetrics :: "MetricsSnapshot option"

text \<open>
  What the world does during one call of \<^verbatim>\<open>getNetworkMetrics\<close>. \<open>settle\<close> is the time
  between the identity lookup finishing and \<^verbatim>\<open>Promise.all\<close> settling, which the slower
  probes may still need.
\<close>

record sample_env =
  networkStats_at :: "nat \<Rightarrow> exn + net_iface list"
  inetLatency_at :: "nat \<Rightarrow> exn + real option"
  net :: net_env
  currentLoad_at :: "nat \<Rightarrow> exn + load_data"
  mem_at :: "nat \<Rightarrow> exn + mem_data"
  time_at :: "nat \<Rightarrow> exn + time_data"
  settle :: nat
  isp_db :: db_env
  timestamp_query :: "exn + string"

text \<open>\<^verbatim>\<open>Promise.all\<close> of the six wrapped calls: all results, or a rejection.\<close>

definition promise_all6 ::
  "exn + 'a \<Rightarrow> exn + 'b \<Rightarrow> exn + 'c \<Rightarrow> exn + 'd \<Rightarrow> exn + 'e \<Rightarrow> exn + 'f
   \<Rightarrow> exn + ('a \<times> 'b \<times> 'c \<times> 'd \<times> 'e \<times> 'f)" where
  "promise_all6 r1 r2 r3 r4 r5 r6 =
     (case r1 of Inl e \<Rightarrow> Inl e | Inr v1 \<Rightarrow>
     (case r2 of Inl e \<Rightarrow> Inl e | Inr v2 \<Rightarrow>
     (case r3 of Inl e \<Rightarrow> Inl e | Inr v3 \<Rightarrow>
     (case r4 of Inl e \<Rightarrow> Inl e | Inr v4 \<Rightarrow>
     (case r5 of Inl e \<Rightarrow> Inl e | Inr v5 \<Rightarrow>
     (case r6 of Inl e \<Rightarrow> Inl e | Inr v6 \<Rightarrow> Inr (v1, v2, v3, v4, v5, v6)))))))"

text \<open>The query for the current time; \<^verbatim>\<open>pool.request()\<close> on an undefined pool throws.\<close>

definition select_timestamp :: "sample_env \<Rightarrow> store \<Rightarrow> (exn + string) \<times> store" where
  "select_timestamp env d =
     (if \<not> pool d then (Inl TypeError, d)
      else (timestamp_query env, send SelectTimestamp d))"

text \<open>
  The object literal that is returned. Reading a property of \<^verbatim>\<open>undefined\<close>, or of the
  first element of an empty \<^verbatim>\<open>networkStats\<close>, throws.
\<close>

definition build_snapshot ::
  "string \<Rightarrow> net_iface list option \<Rightarrow> real option option \<Rightarrow> IdentityRecord option
   \<Rightarrow> load_data option \<Rightarrow> mem_data option \<Rightarrow> time_data option \<Rightarrow> exn + MetricsSnapshot" where
  "build_snapshot ts networkStats lat info cpu memory up =
     (case cpu of None \<Rightarrow> Inl TypeError | Some c \<Rightarrow>
     (case memory of None \<Rightarrow> Inl TypeError | Some m \<Rightarrow>
     (case up of None \<Rightarrow> Inl TypeError | Some u \<Rightarrow>
     (case networkStats of None \<Rightarrow> Inl TypeError | Some [] \<Rightarrow> Inl TypeError
      | Some (n0 # _) \<Rightarrow>
          Inr \<lparr>timestamp = ts,
               publicIpInfo = info,
               systemMetrics =
                 \<lparr>cpuLoad = currentLoad c,
                  memoryUsed = (mem_used m / mem_total m) * 100,
                  uptime = \<lfloor>si_uptime u / 3600\<rfloor>\<rparr>,
               networkMetrics =
                 \<lparr>downloadSpeed = rx_sec n0 / 1024 / 1024,
                  uploadSpeed = tx_sec n0 / 1024 / 1024,
                  totalDownload = rx_bytes n0 / 1024 / 1024 / 1024,
                  totalUpload = tx_bytes n0 / 1024 / 1024 / 1024,
                  latency = (case lat of Some (Some v) \<Rightarrow> (if v = 0 then None else Some v)
                             | _ \<Rightarrow> None)\<rparr>\<rparr>))))"

text \<open>The ISP check between the join and the assembly of the snapshot.\<close>

definition isp_check ::
  "config \<Rightarrow> sample_env \<Rightarrow> IdentityRecord option \<Rightarrow> server \<Rightarrow> server" where
  "isp_check cfg env info s =
     (let now = clock (resolver s)
      in if info \<noteq> None \<and> truthy (isp (the info)) \<and> truthy (ip (the info))
            \<and> now - lastIspCheck s \<ge> ISP_CHECK_INTERVAL cfg
         then s\<lparr>database := snd (checkAndLogIspChange (isp_db env) (the (isp (the info)))
                              (the (ip (the info))) (database s)),
                lastIspCheck := now\<rparr>
         else s)"

text \<open>The body of the \<^verbatim>\<open>try\<close> block of \<^verbatim>\<open>getNetworkMetrics\<close>.\<close>

definition getNetworkMetrics_try ::
  "config \<Rightarrow> sample_env \<Rightarrow> server \<Rightarrow> (exn + MetricsSnapshot) \<times> server" where
  "getNetworkMetrics_try cfg env s =
     (case getMetricsWithRetry sleep (getPublicIpInfo cfg (net env)) (resolver s) of
        (r3, rs) \<Rightarrow>
          (case promise_all6 (probe_with_retry (networkStats_at env))
                             (probe_with_retry (inetLatency_at env))
                             r3
                             (probe_with_retry (currentLoad_at env))
                             (probe_with_retry (mem_at env))
                             (probe_with_retry (time_at env)) of
             Inl e \<Rightarrow> (Inl e, s\<lparr>resolver := rs\<rparr>)
           | Inr (networkStats, lat, info, cpu, memory, up) \<Rightarrow>
               (let s1 = isp_check cfg env info (s\<lparr>resolver := sleep (int (settle env)) rs\<rparr>)
                in case select_timestamp env (database s1) of
                     (Inl e, d) \<Rightarrow> (Inl e, s1\<lparr>database := d\<rparr>)
                   | (Inr ts, d) \<Rightarrow>
                       (build_snapshot ts networkStats lat info cpu memory up, s1\<lparr>database := d\<rparr>))))"

text \<open>The \<^verbatim>\<open>catch\<close> turns every exception into \<^verbatim>\<open>null\<close>.\<close>

definition getNetworkMetrics ::
  "config \<Rightarrow> sample_env \<Rightarrow> server \<Rightarrow> MetricsSnapshot option \<times> server" where
  "getNetworkMetrics cfg env s =
     (case getNetworkMetrics_try cfg env s of
        (Inr m, s') \<Rightarrow> (Some m, s')
      | (Inl error, s') \<Rightarrow> (None, s'))"

section \<open>Scheduler and Broadcaster\<close>

text \<open>
  One run of the \<^verbatim>\<open>setInterval\<close> callback of \<^verbatim>\<open>startContinuousMonitoring\<close>, and of its
  initial check: \<^verbatim>\<open>currentMetrics = await getNetworkMetrics()\<close>.
\<close>

definition monitoring_tick :: "config \<Rightarrow> sample_env \<Rightarrow> server \<Rightarrow> server" where
  "monitoring_tick cfg env s =
     (case getNetworkMetrics cfg env s of (m, s') \<Rightarrow> s'\<lparr>currentMetrics := m\<rparr>)"

text \<open>
  What one subscriber is sent: on connecting, and on each run of its own interval
  (\<open>ws_open\<close>: \<^verbatim>\<open>ws.readyState === ws.OPEN\<close>).
\<close>

definition on_connection :: "server \<Rightarrow> MetricsSnapshot list" where
  "on_connection s = (case currentMetrics s of Some m \<Rightarrow> [m] | None \<Rightarrow> [])"

definition push_tick :: "bool \<Rightarrow> server \<Rightarrow> MetricsSnapshot list" where
  "push_tick ws_open s =
     (if currentMetrics s \<noteq> None \<and> ws_open then [the (currentMetrics s)] else [])"


section \<open>Vocabulary for the properties\<close>

subsection \<open>The swap table\<close>

text \<open>
  Rows carry strictly increasing timestamps in insertion order; no row but the last one
  inserted has \<open>uplink = 1\<close>; every row is older than \<open>t\<close>.
\<close>

definition stamped :: "swap_row list \<Rightarrow> bool" where
  "stamped rows = sorted_wrt (<) (map row_timestamp rows)"

definition only_last_active :: "swap_row list \<Rightarrow> bool" where
  "only_last_active rows = (\<forall>r \<in> set (butlast rows). uplink r \<noteq> 1)"

definition before :: "int \<Rightarrow> swap_row list \<Rightarrow> bool" where
  "before t rows = (\<forall>r \<in> set rows. row_timestamp r < t)"

definition table_ok :: "int \<Rightarrow> swap_row list \<Rightarrow> bool" where
  "table_ok t rows = (stamped rows \<and> only_last_active rows \<and> before t rows)"

definition new_row :: "db_env \<Rightarrow> string \<Rightarrow> string \<Rightarrow> swap_row" where
  "new_row env i p = \<lparr>row_isp = i, row_ip = p, row_timestamp = db_now env, uplink = 1\<rparr>"

subsection \<open>The resolver\<close>

text \<open>The module variables as they are initialised when the server starts.\<close>

definition resolver0 :: resolver_state where
  "resolver0 = \<lparr>clock = 0, lastIpApiCall = 0, lastFreeIpApiCall = 0, lastIpWhoIsCall = 0,
                lastIpifyCall = 0, cachedIpInfo = None, requests = []\<rparr>"

text \<open>
  What a provider's fetch comes to under the replies \<open>env\<close>: the record it returns or the
  exception it throws. Lemma \<open>service_fn_outcome\<close> below shows that this is the same from
  every state of the resolver.
\<close>

definition fetch_outcome :: "service \<Rightarrow> net_env \<Rightarrow> exn + IdentityRecord" where
  "fetch_outcome svc env = fst (service_fn svc env resolver0)"

text \<open>The record of the first provider, in the order given, whose fetch succeeds.\<close>

fun first_success :: "service list \<Rightarrow> net_env \<Rightarrow> IdentityRecord option" where
  "first_success [] env = None"
| "first_success (svc # rest) env =
     (case fetch_outcome svc env of Inr d \<Rightarrow> Some d | Inl e \<Rightarrow> first_success rest env)"

text \<open>A cache entry exists and is younger than \<^verbatim>\<open>CACHE_DURATION\<close>.\<close>

definition cache_fresh :: "config \<Rightarrow> resolver_state \<Rightarrow> bool" where
  "cache_fresh cfg s =
     (case cachedIpInfo s of None \<Rightarrow> False
      | Some c \<Rightarrow> clock s - cache_timestamp c < CACHE_DURATION cfg)"



subsection \<open>The probes of one sampling cycle\<close>

text \<open>
  A probe exhausts its retries when its three attempts all throw; otherwise
  \<open>first_answer\<close> is the value of its first attempt that returns.
\<close>

definition exhausted :: "(nat \<Rightarrow> exn + 'a) \<Rightarrow> bool" where
  "exhausted answers = (isl (answers 0) \<and> isl (answers 1) \<and> isl (answers 2))"

definition first_answer :: "(nat \<Rightarrow> exn + 'a) \<Rightarrow> exn + 'a" where
  "first_answer answers =
     (if \<not> isl (answers 0) then answers 0
      else if \<not> isl (answers 1) then answers 1 else answers 2)"

section \<open>Concrete situations\<close>

subsection \<open>Swap table\<close>

definition empty_store :: store where
  "empty_store = \<lparr>pool = True, swap = [], gateway_log = [], statements = [], console_errors = []\<rparr>"

definition db_at :: "int \<Rightarrow> db_env" where
  "db_at t = \<lparr>db_now = t, select_fails = False, update_fails = False, insert_fails = False\<rparr>"

text \<open>Acme is seen twice, then Globex, then Acme again.\<close>

definition journey :: "observation list" where
  "journey =
     [\<lparr>obs_env = db_at 100, obs_isp = ''Acme'', obs_ip = ''1.2.3.4''\<rparr>,
      \<lparr>obs_env = db_at 200, obs_isp = ''Acme'', obs_ip = ''1.2.3.5''\<rparr>,
      \<lparr>obs_env = db_at 300, obs_isp = ''Globex'', obs_ip = ''5.6.7.8''\<rparr>,
      \<lparr>obs_env = db_at 400, obs_isp = ''Acme'', obs_ip = ''1.2.3.4''\<rparr>]"

definition acme_row :: swap_row where
  "acme_row = \<lparr>row_isp = ''Acme'', row_ip = ''1.2.3.4'', row_timestamp = 100, uplink = 1\<rparr>"

definition acme_store :: store where
  "acme_store = empty_store\<lparr>swap := [acme_row]\<rparr>"

text \<open>Acme is seen again three times, from changing addresses, once while an insert would fail.\<close>

definition repeats :: "observation list" where
  "repeats =
     [\<lparr>obs_env = db_at 200, obs_isp = ''Acme'', obs_ip = ''1.2.3.4''\<rparr>,
      \<lparr>obs_env = (db_at 300)\<lparr>insert_fails := True\<rparr>, obs_isp = ''Acme'', obs_ip = ''1.2.3.9''\<rparr>,
      \<lparr>obs_env = db_at 400, obs_isp = ''Acme'', obs_ip = ''9.9.9.9''\<rparr>]"

text \<open>
  The database clock is set back after the first insert: Acme is seen, then Globex
  twice; and Acme is seen, then Globex, then Initech.
\<close>

definition clock_back :: "observation list" where
  "clock_back =
     [\<lparr>obs_env = db_at 100, obs_isp = ''Acme'', obs_ip = ''1.2.3.4''\<rparr>,
      \<lparr>obs_env = db_at 50, obs_isp = ''Globex'', obs_ip = ''5.6.7.8''\<rparr>,
      \<lparr>obs_env = db_at 200, obs_isp = ''Globex'', obs_ip = ''5.6.7.9''\<rparr>]"

definition clock_back_other :: "observation list" where
  "clock_back_other =
     [\<lparr>obs_env = db_at 100, obs_isp = ''Acme'', obs_ip = ''1.2.3.4''\<rparr>,
      \<lparr>obs_env = db_at 50, obs_isp = ''Globex'', obs_ip = ''5.6.7.8''\<rparr>,
      \<lparr>obs_env = db_at 60, obs_isp = ''Initech'', obs_ip = ''9.8.7.6''\<rparr>]"

subsection \<open>Gateway\<close>

definition gateway_silent :: gateway_env where
  "gateway_silent = \<lparr>probe_result = Inr False, gw_now = 700,
                     first_insert_fails = False, fallback_insert_fails = False\<rparr>"

definition gateway_broken :: gateway_env where
  "gateway_broken = \<lparr>probe_result = Inl ProbeError, gw_now = 700,
                     first_insert_fails = False, fallback_insert_fails = True\<rparr>"

subsection \<open>Providers\<close>

definition unanswered :: "'b exchange" where
  "unanswered = \<lparr>took = 10, reply = Rejected\<rparr>"

definition all_down :: net_env where
  "all_down = \<lparr>ipApi_x = unanswered, freeIpApi_x = unanswered, ipWhoIs_x = unanswered,
               ipify_x = unanswered, ipapiCo_x = unanswered\<rparr>"

definition acme_reply :: free_ip_api_data where
  "acme_reply =
     \<lparr>fa_ipAddress = Some ''1.2.3.4'', fa_countryName = Some ''Thailand'',
      fa_regionName = Some ''Bangkok'', fa_cityName = Some ''Bangkok'',
      fa_asnOrganization = Some ''Acme'', fa_latitude = Some 13, fa_longitude = Some 100,
      fa_timeZones = Some [''Asia/Bangkok'']\<rparr>"

definition acme :: IdentityRecord where
  "acme =
     \<lparr>ip = Some ''1.2.3.4'', country = Some ''Thailand'', region = Some ''Bangkok'',
      city = Some ''Bangkok'', isp = Some ''Acme'', latitude = Some 13, longitude = Some 100,
      organization = Some ''Acme'', timezone = Some ''Asia/Bangkok'',
      source = ''freeipapi.com''\<rparr>"

definition globex_reply :: ip_api_data where
  "globex_reply =
     \<lparr>ia_status = Some ''success'', ia_query = Some ''5.6.7.8'', ia_country = Some ''Thailand'',
      ia_regionName = Some ''Bangkok'', ia_city = Some ''Bangkok'', ia_isp = Some ''Globex'',
      ia_lat = Some 13, ia_lon = Some 100, ia_org = Some ''Globex'',
      ia_timezone = Some ''Asia/Bangkok''\<rparr>"

definition globex :: IdentityRecord where
  "globex =
     \<lparr>ip = Some ''5.6.7.8'', country = Some ''Thailand'', region = Some ''Bangkok'',
      city = Some ''Bangkok'', isp = Some ''Globex'', latitude = Some 13, longitude = Some 100,
      organization = Some ''Globex'', timezone = Some ''Asia/Bangkok'',
      source = ''ip-api.com''\<rparr>"

text \<open>ip-api.com fails and freeipapi.com answers; ip-api.com answers.\<close>

definition second_up :: net_env where
  "second_up = all_down\<lparr>freeIpApi_x := \<lparr>took = 50, reply = Replied acme_reply\<rparr>\<rparr>"

definition first_up :: net_env where
  "first_up = all_down\<lparr>ipApi_x := \<lparr>took = 50, reply = Replied globex_reply\<rparr>\<rparr>"

text \<open>The resolver 100 s after the start, with no cache, and with a cache of a given age.\<close>

definition boot :: resolver_state where
  "boot = resolver0\<lparr>clock := 100000\<rparr>"

definition cached :: "IdentityRecord \<Rightarrow> int \<Rightarrow> resolver_state" where
  "cached d age = boot\<lparr>cachedIpInfo := Some \<lparr>data = d, cache_timestamp = 100000 - age\<rparr>\<rparr>"

subsection \<open>Sampling\<close>

text \<open>
  Every probe answers at its first attempt, ip-api.com answers, the database works; and
  the same with no provider answering.
\<close>

definition calm :: sample_env where
  "calm =
     \<lparr>networkStats_at = (\<lambda>k. Inr [\<lparr>rx_sec = 2048, tx_sec = 1024, rx_bytes = 0, tx_bytes = 0\<rparr>]),
      inetLatency_at = (\<lambda>k. Inr (Some 12)),
      net = first_up,
      currentLoad_at = (\<lambda>k. Inr \<lparr>currentLoad = 5\<rparr>),
      mem_at = (\<lambda>k. Inr \<lparr>mem_used = 1, mem_total = 2\<rparr>),
      time_at = (\<lambda>k. Inr \<lparr>si_uptime = 7200\<rparr>),
      settle = 0,
      isp_db = db_at 500,
      timestamp_query = Inr ''2026-01-01 00:00:00''\<rparr>"

definition offline :: sample_env where
  "offline = calm\<lparr>net := all_down\<rparr>"

definition server0 :: server where
  "server0 = \<lparr>resolver = boot, database = empty_store, lastIspCheck = 0, currentMetrics = None\<rparr>"

text \<open>The network counters cannot be read; the query for the time fails.\<close>

definition stats_down :: sample_env where
  "stats_down = calm\<lparr>networkStats_at := (\<lambda>k. Inl ProbeError)\<rparr>"

definition time_query_down :: sample_env where
  "time_query_down = calm\<lparr>timestamp_query := Inl RequestError\<rparr>"

definition earlier_snapshot :: MetricsSnapshot where
  "earlier_snapshot =
     \<lparr>timestamp = ''2025-12-31 23:59:55'', publicIpInfo = Some acme,
      systemMetrics = \<lparr>cpuLoad = 5, memoryUsed = 50, uptime = 2\<rparr>,
      networkMetrics = \<lparr>downloadSpeed = 0, uploadSpeed = 0, totalDownload = 0,
                        totalUpload = 0, latency = Some 12\<rparr>\<rparr>"

text \<open>A server that has published a snapshot.\<close>

definition live_server :: server where
  "live_server = server0\<lparr>currentMetrics := Some earlier_snapshot\<rparr>"

section \<open>ChangeDetector: the swap table keeps one active row\<close>

lemma newest_Some_sorted:
  "sorted_wrt (<) (map row_timestamp (b # rs)) \<Longrightarrow> newest (Some b) rs = Some (last (b # rs))"
proof (induction rs arbitrary: b)
  case Nil
  then show ?case by simp
next
  case (Cons r rs)
  from Cons.prems have lt: "row_timestamp b < row_timestamp r"
    and srt: "sorted_wrt (<) (map row_timestamp (r # rs))" by simp_all
  from Cons.IH[OF srt] lt show ?case by simp
qed

lemma newest_stamped:
  assumes "stamped rs"
  shows "newest None rs = (if rs = [] then None else Some (last rs))"
proof (cases rs)
  case Nil
  then show ?thesis by simp
next
  case (Cons b bs)
  with assms newest_Some_sorted[of b bs] show ?thesis by (simp add: stamped_def)
qed

lemma stamped_snoc:
  "stamped rows \<Longrightarrow> before t rows \<Longrightarrow> row_timestamp r = t \<Longrightarrow> stamped (rows @ [r])"
  by (auto simp: stamped_def before_def sorted_wrt_append)

lemma deactivate_stamps: "map row_timestamp (deactivate i rows) = map row_timestamp rows"
  by (induction rows) (auto simp: deactivate_def)

lemma stamped_deactivate: "stamped (deactivate i rows) = stamped rows"
  by (simp add: stamped_def deactivate_stamps)

lemma before_deactivate: "before t (deactivate i rows) = before t rows"
proof -
  have "set (map row_timestamp (deactivate i rows)) = set (map row_timestamp rows)"
    by (simp only: deactivate_stamps)
  then show ?thesis unfolding before_def by (metis (no_types, lifting) imageE imageI list.set_map)
qed

lemma deactivate_all:
  assumes "only_last_active rows" "rows \<noteq> []"
  shows "\<forall>r \<in> set (deactivate (row_isp (last rows)) rows). uplink r \<noteq> 1"
proof -
  from assms(2) obtain bs l where rows: "rows = bs @ [l]" by (cases rows rule: rev_cases) auto
  with assms(1) have "\<forall>r \<in> set bs. uplink r \<noteq> 1" by (simp add: only_last_active_def)
  then show ?thesis by (auto simp: rows deactivate_def)
qed

lemma only_last_active_snoc:
  "\<forall>r \<in> set rows. uplink r \<noteq> 1 \<Longrightarrow> only_last_active (rows @ [r])"
  by (simp add: only_last_active_def)

lemma only_last_active_inactive:
  "\<forall>r \<in> set rows. uplink r \<noteq> 1 \<Longrightarrow> only_last_active rows"
  by (auto simp: only_last_active_def dest: in_set_butlastD)

lemma checkAndLogIspChange_swap:
  "swap (snd (checkAndLogIspChange env i p db)) =
     (if \<not> pool db \<or> select_fails env then swap db
      else case newest None (swap db) of
        None \<Rightarrow> if insert_fails env then swap db else swap db @ [new_row env i p]
      | Some l \<Rightarrow>
          if row_isp l = i \<or> update_fails env then swap db
          else if insert_fails env then deactivate (row_isp l) (swap db)
          else deactivate (row_isp l) (swap db) @ [new_row env i p])"
  by (simp add: checkAndLogIspChange_def checkAndLogIspChange_try_def select_last_log_def
      update_uplink_def insert_swap_def send_def new_row_def Let_def split: option.splits)

lemma table_ok_later: "table_ok t rows \<Longrightarrow> t \<le> t' \<Longrightarrow> table_ok t' rows"
  by (auto simp: table_ok_def before_def)

lemma table_ok_deactivate:
  assumes "table_ok t rows" "rows \<noteq> []"
  shows "table_ok t (deactivate (row_isp (last rows)) rows)"
    and "\<forall>r \<in> set (deactivate (row_isp (last rows)) rows). uplink r \<noteq> 1"
proof -
  let ?d = "deactivate (row_isp (last rows)) rows"
  from assms(1) have s: "stamped ?d" and b: "before t ?d" and o: "only_last_active rows"
    by (simp_all add: table_ok_def stamped_deactivate before_deactivate)
  from o assms(2) show off: "\<forall>r \<in> set ?d. uplink r \<noteq> 1"
    by (rule deactivate_all)
  then have "only_last_active ?d" by (rule only_last_active_inactive)
  with s b show "table_ok t ?d" by (simp add: table_ok_def)
qed

lemma table_ok_snoc:
  assumes "table_ok t rows" "\<forall>r \<in> set rows. uplink r \<noteq> 1" "t < t'" and that: "db_now env = t"
  shows "table_ok t' (rows @ [new_row env i p])"
proof -
  from assms(1) have s: "stamped rows" and b: "before t rows" by (simp_all add: table_ok_def)
  from s b have "stamped (rows @ [new_row env i p])"
    by (rule stamped_snoc) (simp add: new_row_def that)
  moreover from assms(2) have "only_last_active (rows @ [new_row env i p])"
    by (rule only_last_active_snoc)
  moreover from b assms(3) have "before t' (rows @ [new_row env i p])"
    by (auto simp: before_def new_row_def that)
  ultimately show ?thesis by (simp add: table_ok_def)
qed

lemma checkAndLogIspChange_table_ok:
  assumes ok: "table_ok (db_now env) (swap db)" and lt: "db_now env < t'"
  shows "table_ok t' (swap (snd (checkAndLogIspChange env newIsp newIp db)))"
proof -
  from ok have st: "stamped (swap db)" by (simp add: table_ok_def)
  from ok lt have ok': "table_ok t' (swap db)" by (simp add: table_ok_later)
  show ?thesis
  proof (cases "swap db = []")
    case True
    have "table_ok t' (swap db @ [new_row env newIsp newIp])"
      by (rule table_ok_snoc[OF ok _ lt]) (simp_all add: True)
    with True ok' show ?thesis
      by (simp add: checkAndLogIspChange_swap)
  next
    case False
    with st have nw: "newest None (swap db) = Some (last (swap db))"
      by (simp add: newest_stamped)
    let ?d = "deactivate (row_isp (last (swap db))) (swap db)"
    from ok False have d: "table_ok (db_now env) ?d" and off: "\<forall>r \<in> set ?d. uplink r \<noteq> 1"
      by (rule table_ok_deactivate)+
    have a: "table_ok t' (?d @ [new_row env newIsp newIp])"
      by (rule table_ok_snoc[OF d off lt]) simp
    from d lt have b: "table_ok t' ?d"
      by (simp add: table_ok_later)
    from nw a b ok' show ?thesis
      by (simp add: checkAndLogIspChange_swap)
  qed
qed

lemma observe_all_table_ok:
  "sorted_wrt (<) (map (\<lambda>ob. db_now (obs_env ob)) obs) \<Longrightarrow> table_ok t0 (swap db) \<Longrightarrow>
   \<forall>ob \<in> set obs. table_ok (db_now (obs_env ob)) (swap db) \<Longrightarrow>
   \<exists>t. table_ok t (swap (observe_all obs db))"
proof (induction obs arbitrary: db t0)
  case Nil
  then show ?case by auto
next
  case (Cons ob obs)
  let ?db = "snd (checkAndLogIspChange (obs_env ob) (obs_isp ob) (obs_ip ob) db)"
  from Cons.prems(3) have here: "table_ok (db_now (obs_env ob)) (swap db)" by simp
  from Cons.prems(1) have srt: "sorted_wrt (<) (map (\<lambda>ob. db_now (obs_env ob)) obs)"
    and later: "\<forall>ob' \<in> set obs. db_now (obs_env ob) < db_now (obs_env ob')" by simp_all
  from here have "table_ok (db_now (obs_env ob) + 1) (swap ?db)"
    by (rule checkAndLogIspChange_table_ok) simp
  moreover from here later have "\<forall>ob' \<in> set obs. table_ok (db_now (obs_env ob')) (swap ?db)"
    by (auto intro: checkAndLogIspChange_table_ok)
  ultimately have "\<exists>t. table_ok t (swap (observe_all obs ?db))"
    using srt by (rule Cons.IH[rotated])
  then show ?case by simp
qed

lemma table_ok_empty: "table_ok t []"
  by (simp add: table_ok_def stamped_def only_last_active_def before_def)

lemma observe_all_from_empty:
  assumes "swap db = []" and "sorted_wrt (<) (map (\<lambda>ob. db_now (obs_env ob)) obs)"
  shows "stamped (swap (observe_all obs db)) \<and> only_last_active (swap (observe_all obs db))"
proof -
  from assms(1) have "table_ok t (swap db)" for t by (simp add: table_ok_empty)
  with assms(2) have "\<exists>t. table_ok t (swap (observe_all obs db))"
    by (intro observe_all_table_ok[where ?t0.0 = 0]) auto
  then show ?thesis by (auto simp: table_ok_def)
qed

lemma active_is_last:
  assumes "only_last_active rows" "i < length rows" "uplink (rows ! i) = 1"
  shows "Suc i = length rows"
proof (rule ccontr)
  assume "Suc i \<noteq> length rows"
  with assms(2) have "i < length (butlast rows)" by simp
  then have "butlast rows ! i \<in> set (butlast rows)" by (rule nth_mem)
  moreover from \<open>i < length (butlast rows)\<close> have "butlast rows ! i = rows ! i"
    by (rule nth_butlast)
  ultimately show False using assms(1,3) by (auto simp: only_last_active_def)
qed

lemma only_last_active_count:
  assumes "only_last_active rows"
  shows "length (filter (\<lambda>r. uplink r = 1) rows) \<le> 1"
proof (cases rows rule: rev_cases)
  case Nil
  then show ?thesis by simp
next
  case (snoc bs l)
  with assms have "filter (\<lambda>r. uplink r = 1) bs = []"
    by (auto simp: only_last_active_def filter_empty_conv)
  with snoc show ?thesis by simp
qed

lemma checkAndLogIspChange_statements:
  "statements (snd (checkAndLogIspChange env i p db)) =
     statements db @
     (if \<not> pool db then []
      else if select_fails env then [SelectLastLog]
      else case newest None (swap db) of
        None \<Rightarrow> [SelectLastLog, InsertSwap i p]
      | Some l \<Rightarrow>
          if row_isp l = i then [SelectLastLog]
          else if update_fails env then [SelectLastLog, UpdateUplink (row_isp l)]
          else [SelectLastLog, UpdateUplink (row_isp l), InsertSwap i p])"
  by (simp add: checkAndLogIspChange_def checkAndLogIspChange_try_def select_last_log_def
      update_uplink_def insert_swap_def send_def Let_def split: option.splits)

lemma checkAndLogIspChange_pool: "pool (snd (checkAndLogIspChange env i p d)) = pool d"
  by (simp add: checkAndLogIspChange_def checkAndLogIspChange_try_def select_last_log_def
      update_uplink_def insert_swap_def send_def Let_def split: option.splits)

lemma journey_increasing: "sorted_wrt (<) (map (\<lambda>ob. db_now (obs_env ob)) journey)"
  by (simp add: journey_def db_at_def)

lemma journey_table:
  "swap (observe_all journey empty_store) =
     [\<lparr>row_isp = ''Acme'', row_ip = ''1.2.3.4'', row_timestamp = 100, uplink = 0\<rparr>,
      \<lparr>row_isp = ''Globex'', row_ip = ''5.6.7.8'', row_timestamp = 300, uplink = 0\<rparr>,
      \<lparr>row_isp = ''Acme'', row_ip = ''1.2.3.4'', row_timestamp = 400, uplink = 1\<rparr>]"
  by (simp add: journey_def empty_store_def db_at_def checkAndLogIspChange_swap
      checkAndLogIspChange_pool deactivate_def new_row_def)

text \<open>
  Claim C2, as amended. Let checkAndLogIspChange process any sequence of observed
  identities, one call after the other, starting from an empty swap table, and let the
  database clock that stamps the inserted rows strictly increase from each call to the
  next; any of the statements may fail. In the table after the last call, a row \<open>i\<close>
  with \<open>uplink = 1\<close> is the only such row of its ISP, and it is the row of that ISP
  inserted last: every row \<open>j\<close> of the same ISP stands no later in insertion order and
  has no later timestamp.
\<close>

theorem active_row_is_newest_of_its_isp:
  assumes "swap db = []" and "sorted_wrt (<) (map (\<lambda>ob. db_now (obs_env ob)) obs)"
    and "rows = swap (observe_all obs db)"
    and "i < length rows" and "uplink (rows ! i) = 1"
    and "j < length rows" and "row_isp (rows ! j) = row_isp (rows ! i)"
  shows "(uplink (rows ! j) = 1 \<longrightarrow> j = i) \<and> j \<le> i
         \<and> row_timestamp (rows ! j) \<le> row_timestamp (rows ! i)"
proof -
  from observe_all_from_empty[OF assms(1,2)] assms(3)
  have st: "stamped rows" and ola: "only_last_active rows" by simp_all
  from ola assms(4,5) have i: "Suc i = length rows" by (rule active_is_last)
  have "j = i" if "uplink (rows ! j) = 1"
    using active_is_last[OF ola assms(6) that] i by simp
  moreover from i assms(6) have ji: "j \<le> i" by simp
  moreover have "row_timestamp (rows ! j) \<le> row_timestamp (rows ! i)"
  proof (cases "j = i")
    case True
    then show ?thesis by simp
  next
    case False
    with ji have "j < i" by simp
    with st assms(4) have "map row_timestamp rows ! j < map row_timestamp rows ! i"
      unfolding stamped_def by (intro sorted_wrt_nth_less) simp_all
    with assms(4,6) show ?thesis by simp
  qed
  ultimately show ?thesis by simp
qed

text \<open>
  The claim as it was stated, for every sequence, fails when the database clock is set
  back. The latest row is the one with the greatest timestamp, so after Acme is stamped
  100 and Globex 50, the row of Acme still counts as the latest: Globex, seen again, is
  taken for a change, no row of Globex is deactivated, and a second active row of Globex
  is inserted.
\<close>

theorem two_active_rows_of_one_isp:
  "swap empty_store = []
   \<and> swap (observe_all clock_back empty_store) =
       [\<lparr>row_isp = ''Acme'', row_ip = ''1.2.3.4'', row_timestamp = 100, uplink = 0\<rparr>,
        \<lparr>row_isp = ''Globex'', row_ip = ''5.6.7.8'', row_timestamp = 50, uplink = 1\<rparr>,
        \<lparr>row_isp = ''Globex'', row_ip = ''5.6.7.9'', row_timestamp = 200, uplink = 1\<rparr>]
   \<and> length (filter (\<lambda>r. row_isp r = ''Globex'' \<and> uplink r = 1)
               (swap (observe_all clock_back empty_store))) = 2"
proof -
  have e: "swap empty_store = []" by (simp add: empty_store_def)
  have t: "swap (observe_all clock_back empty_store) =
       [\<lparr>row_isp = ''Acme'', row_ip = ''1.2.3.4'', row_timestamp = 100, uplink = 0\<rparr>,
        \<lparr>row_isp = ''Globex'', row_ip = ''5.6.7.8'', row_timestamp = 50, uplink = 1\<rparr>,
        \<lparr>row_isp = ''Globex'', row_ip = ''5.6.7.9'', row_timestamp = 200, uplink = 1\<rparr>]"
    by (simp add: clock_back_def empty_store_def db_at_def checkAndLogIspChange_swap
        checkAndLogIspChange_pool deactivate_def new_row_def)
  have c: "length (filter (\<lambda>r. row_isp r = ''Globex'' \<and> uplink r = 1)
               (swap (observe_all clock_back empty_store))) = 2"
    unfolding t by simp
  from e t c show ?thesis by blast
qed

theorem active_row_is_newest_of_its_isp_witness:
  "swap empty_store = []
   \<and> sorted_wrt (<) (map (\<lambda>ob. db_now (obs_env ob)) journey)
   \<and> 2 < length (swap (observe_all journey empty_store))
   \<and> uplink (swap (observe_all journey empty_store) ! 2) = 1
   \<and> 0 < length (swap (observe_all journey empty_store))
   \<and> row_isp (swap (observe_all journey empty_store) ! 0)
       = row_isp (swap (observe_all journey empty_store) ! 2)
   \<and> uplink (swap (observe_all journey empty_store) ! 0) \<noteq> 1
   \<and> row_timestamp (swap (observe_all journey empty_store) ! 0)
       \<le> row_timestamp (swap (observe_all journey empty_store) ! 2)"
proof -
  have e: "swap empty_store = []" by (simp add: empty_store_def)
  have i: "2 < length (swap (observe_all journey empty_store))"
    and a: "uplink (swap (observe_all journey empty_store) ! 2) = 1"
    and j: "0 < length (swap (observe_all journey empty_store))"
    and same: "row_isp (swap (observe_all journey empty_store) ! 0)
               = row_isp (swap (observe_all journey empty_store) ! 2)"
    by (simp_all add: journey_table)
  from active_row_is_newest_of_its_isp[OF e journey_increasing refl i a j same]
  have "uplink (swap (observe_all journey empty_store) ! 0) \<noteq> 1"
    and "row_timestamp (swap (observe_all journey empty_store) ! 0)
       \<le> row_timestamp (swap (observe_all journey empty_store) ! 2)"
    by auto
  with e journey_increasing i a j same show ?thesis by blast
qed

text \<open>
  Claim C6. When the newest row of the swap table carries the observed ISP, a call of
  checkAndLogIspChange leaves the table as it is and sends no UPDATE and no INSERT, and
  so does every further call with that ISP, whatever the address and whatever the
  database does.
\<close>

theorem checkAndLogIspChange_same_isp_noop:
  assumes "newest None (swap db) = Some l" and "\<forall>ob \<in> set obs. obs_isp ob = row_isp l"
  shows "swap (observe_all obs db) = swap db
       \<and> filter (\<lambda>q. q \<noteq> SelectLastLog) (statements (observe_all obs db))
         = filter (\<lambda>q. q \<noteq> SelectLastLog) (statements db)"
  using assms
proof (induction obs arbitrary: db)
  case Nil
  then show ?case by simp
next
  case (Cons ob obs)
  let ?db = "snd (checkAndLogIspChange (obs_env ob) (obs_isp ob) (obs_ip ob) db)"
  from Cons.prems have same: "obs_isp ob = row_isp l" by simp
  with Cons.prems(1) have sw: "swap ?db = swap db"
    by (simp add: checkAndLogIspChange_swap)
  from same Cons.prems(1)
  have stm: "filter (\<lambda>q. q \<noteq> SelectLastLog) (statements ?db)
             = filter (\<lambda>q. q \<noteq> SelectLastLog) (statements db)"
    by (simp add: checkAndLogIspChange_statements)
  from Cons.prems sw have "newest None (swap ?db) = Some l" by simp
  from Cons.IH[OF this] Cons.prems(2) sw stm show ?case by simp
qed

theorem checkAndLogIspChange_same_isp_noop_witness:
  "newest None (swap acme_store) = Some acme_row
   \<and> map obs_isp repeats = [row_isp acme_row, row_isp acme_row, row_isp acme_row]
   \<and> swap (observe_all repeats acme_store) = swap acme_store
   \<and> filter (\<lambda>q. q \<noteq> SelectLastLog) (statements (observe_all repeats acme_store))
       = filter (\<lambda>q. q \<noteq> SelectLastLog) (statements acme_store)"
proof -
  have n: "newest None (swap acme_store) = Some acme_row"
    by (simp add: acme_store_def empty_store_def)
  have m: "map obs_isp repeats = [row_isp acme_row, row_isp acme_row, row_isp acme_row]"
    by (simp add: repeats_def acme_row_def)
  have r: "\<forall>ob \<in> set repeats. obs_isp ob = row_isp acme_row"
    by (simp add: repeats_def acme_row_def)
  from checkAndLogIspChange_same_isp_noop[OF n r] n m show ?thesis by blast
qed

text \<open>
  Claim C9, as amended. Let checkAndLogIspChange process any sequence of observed
  identities, one call after the other, starting from an empty swap table, and let the
  database clock that stamps the inserted rows strictly increase from each call to the
  next; any of the statements may fail. After every call the whole table holds at most
  one row with \<open>uplink = 1\<close>, whatever the ISPs of its rows: a transition deactivates
  the active rows of the ISP of the newest row, which are the only active ones, before
  it inserts the new active row.
\<close>

theorem at_most_one_uplink_row:
  assumes "swap db = []" and "sorted_wrt (<) (map (\<lambda>ob. db_now (obs_env ob)) obs)"
  shows "length (filter (\<lambda>r. uplink r = 1) (swap (observe_all obs db))) \<le> 1"
proof -
  from observe_all_from_empty[OF assms]
  have "only_last_active (swap (observe_all obs db))" by simp
  then show ?thesis by (rule only_last_active_count)
qed

text \<open>
  The claim as it was stated, for every sequence, fails when the database clock is set
  back. After Acme is stamped 100 and Globex 50, the row of Acme still counts as the
  latest: when Initech is seen, the rows of Acme are deactivated once more, the active
  row of Globex stays, and an active row of Initech is inserted beside it.
\<close>

theorem two_active_rows_in_table:
  "swap empty_store = []
   \<and> swap (observe_all clock_back_other empty_store) =
       [\<lparr>row_isp = ''Acme'', row_ip = ''1.2.3.4'', row_timestamp = 100, uplink = 0\<rparr>,
        \<lparr>row_isp = ''Globex'', row_ip = ''5.6.7.8'', row_timestamp = 50, uplink = 1\<rparr>,
        \<lparr>row_isp = ''Initech'', row_ip = ''9.8.7.6'', row_timestamp = 60, uplink = 1\<rparr>]
   \<and> length (filter (\<lambda>r. uplink r = 1)
               (swap (observe_all clock_back_other empty_store))) = 2"
proof -
  have e: "swap empty_store = []" by (simp add: empty_store_def)
  have t: "swap (observe_all clock_back_other empty_store) =
       [\<lparr>row_isp = ''Acme'', row_ip = ''1.2.3.4'', row_timestamp = 100, uplink = 0\<rparr>,
        \<lparr>row_isp = ''Globex'', row_ip = ''5.6.7.8'', row_timestamp = 50, uplink = 1\<rparr>,
        \<lparr>row_isp = ''Initech'', row_ip = ''9.8.7.6'', row_timestamp = 60, uplink = 1\<rparr>]"
    by (simp add: clock_back_other_def empty_store_def db_at_def checkAndLogIspChange_swap
        checkAndLogIspChange_pool deactivate_def new_row_def)
  have c: "length (filter (\<lambda>r. uplink r = 1)
               (swap (observe_all clock_back_other empty_store))) = 2"
    unfolding t by simp
  from e t c show ?thesis by blast
qed

theorem at_most_one_uplink_row_witness:
  "swap empty_store = []
   \<and> sorted_wrt (<) (map (\<lambda>ob. db_now (obs_env ob)) journey)
   \<and> length (filter (\<lambda>r. uplink r = 1) (swap (observe_all journey empty_store))) \<le> 1"
proof -
  have e: "swap empty_store = []" by (simp add: empty_store_def)
  from at_most_one_uplink_row[OF e journey_increasing] e journey_increasing
  show ?thesis by blast
qed

section \<open>GatewayProbe: the logging task never throws\<close>

lemma insert_gateway_log_eq:
  "insert_gateway_log fails now st d =
     (if fails then (Inl RequestError, d\<lparr>statements := statements d @ [InsertGatewayLog st]\<rparr>)
      else (Inr (), d\<lparr>statements := statements d @ [InsertGatewayLog st],
                       gateway_log := gateway_log d @ [\<lparr>status = st, gw_timestamp = now\<rparr>]\<rparr>))"
  by (simp add: insert_gateway_log_def send_def Let_def)

text \<open>
  Claim C8. logGatewayStatus returns normally in every case. When the probe reports a
  gateway that does not answer, the status is \<^verbatim>\<open>'down'\<close> and, the insert succeeding, one
  row with that status is appended. When the probe rejects or the insert of its result
  fails, exactly one further insert, of status \<^verbatim>\<open>'down'\<close>, is sent; if that fails too the
  error is printed, nothing is appended and nothing more is sent. The status route
  answers an unreachable gateway with \<^verbatim>\<open>'down'\<close> and code 200.
\<close>

theorem logGatewayStatus_never_throws:
  "fst (logGatewayStatus env d) = Inr ()
   \<and> (pool d \<and> probe_result env = Inr False \<and> \<not> first_insert_fails env \<longrightarrow>
        snd (logGatewayStatus env d) =
          d\<lparr>statements := statements d @ [InsertGatewayLog ''down''],
            gateway_log := gateway_log d @ [\<lparr>status = ''down'', gw_timestamp = gw_now env\<rparr>]\<rparr>)
   \<and> (pool d \<and> (isl (probe_result env) \<or> first_insert_fails env) \<longrightarrow>
        statements (snd (logGatewayStatus env d)) =
          statements d
          @ (case probe_result env of Inl e \<Rightarrow> []
             | Inr alive \<Rightarrow> [InsertGatewayLog (if alive then ''up'' else ''down'')])
          @ [InsertGatewayLog ''down'']
        \<and> gateway_log (snd (logGatewayStatus env d)) =
            (if fallback_insert_fails env then gateway_log d
             else gateway_log d @ [\<lparr>status = ''down'', gw_timestamp = gw_now env\<rparr>])
        \<and> console_errors (snd (logGatewayStatus env d)) =
            (if fallback_insert_fails env then console_errors d @ [RequestError]
             else console_errors d))
   \<and> gateway_status_route (Inr False) = (200, ''down'')"
  by (cases "probe_result env")
     (simp_all add: logGatewayStatus_def logGatewayStatus_try_def insert_gateway_log_eq
        gateway_status_route_def)

theorem logGatewayStatus_never_throws_witness:
  "pool empty_store \<and> probe_result gateway_silent = Inr False
   \<and> \<not> first_insert_fails gateway_silent
   \<and> logGatewayStatus gateway_silent empty_store =
       (Inr (), empty_store\<lparr>statements := [InsertGatewayLog ''down''],
                            gateway_log := [\<lparr>status = ''down'', gw_timestamp = 700\<rparr>]\<rparr>)
   \<and> isl (probe_result gateway_broken) \<and> fallback_insert_fails gateway_broken
   \<and> fst (logGatewayStatus gateway_broken empty_store) = Inr ()
   \<and> statements (snd (logGatewayStatus gateway_broken empty_store)) = [InsertGatewayLog ''down'']
   \<and> gateway_log (snd (logGatewayStatus gateway_broken empty_store)) = []
   \<and> console_errors (snd (logGatewayStatus gateway_broken empty_store)) = [RequestError]"
proof -
  have s: "pool empty_store" "probe_result gateway_silent = Inr False"
    "\<not> first_insert_fails gateway_silent" "gw_now gateway_silent = 700"
    "statements empty_store = []" "gateway_log empty_store = []" "console_errors empty_store = []"
    by (simp_all add: empty_store_def gateway_silent_def)
  have b: "isl (probe_result gateway_broken)" "fallback_insert_fails gateway_broken"
    "probe_result gateway_broken = Inl ProbeError"
    by (simp_all add: gateway_broken_def)
  from logGatewayStatus_never_throws[of gateway_silent empty_store] s
  have "logGatewayStatus gateway_silent empty_store =
       (Inr (), empty_store\<lparr>statements := [InsertGatewayLog ''down''],
                            gateway_log := [\<lparr>status = ''down'', gw_timestamp = 700\<rparr>]\<rparr>)"
    by (simp add: prod_eq_iff)
  moreover from logGatewayStatus_never_throws[of gateway_broken empty_store] s b
  have "fst (logGatewayStatus gateway_broken empty_store) = Inr ()
   \<and> statements (snd (logGatewayStatus gateway_broken empty_store)) = [InsertGatewayLog ''down'']
   \<and> gateway_log (snd (logGatewayStatus gateway_broken empty_store)) = []
   \<and> console_errors (snd (logGatewayStatus gateway_broken empty_store)) = [RequestError]"
    by simp
  ultimately show ?thesis using s b by simp
qed

section \<open>IpResolver: what getPublicIpInfo returns\<close>

text \<open>What the gate comes to: the clock is moved to the end of the interval, if it is not past it.\<close>

lemma rate_gate_eq: "rate_gate lastCall limit s = s\<lparr>clock := max (clock s) (lastCall + limit)\<rparr>"
  by (simp add: rate_gate_def sleep_def Let_def max_def)

lemmas provider_defs = getIpApiInfo_def getFreeIpApiInfo_def getIpWhoIsInfo_def getIpifyInfo_def
  axios_get_def rate_gate_eq Let_def

lemma service_fn_fst: "fst (service_fn svc env s) = fst (service_fn svc env s')"
  by (cases svc) (simp_all add: provider_defs split: reply.splits option.splits list.splits)

lemma service_fn_outcome: "fst (service_fn svc env s) = fetch_outcome svc env"
  unfolding fetch_outcome_def by (rule service_fn_fst)

lemma service_fn_cache: "cachedIpInfo (snd (service_fn svc env s)) = cachedIpInfo s"
  by (cases svc) (simp_all add: provider_defs split: reply.splits option.splits list.splits)

lemma try_services_fst: "fst (try_services now svcs env s) = first_success svcs env"
proof (induction svcs arbitrary: s)
  case Nil
  then show ?case by simp
next
  case (Cons svc rest)
  obtain r s' where step: "service_fn svc env s = (r, s')" by (cases "service_fn svc env s")
  then have "fetch_outcome svc env = r" using service_fn_outcome[of svc env s] by simp
  with step Cons.IH[of s'] show ?case by (cases r) simp_all
qed

lemma try_services_cache:
  "cachedIpInfo (snd (try_services now svcs env s)) =
     (case first_success svcs env of
        Some d \<Rightarrow> Some \<lparr>data = d, cache_timestamp = now\<rparr>
      | None \<Rightarrow> cachedIpInfo s)"
proof (induction svcs arbitrary: s)
  case Nil
  then show ?case by simp
next
  case (Cons svc rest)
  obtain r s' where step: "service_fn svc env s = (r, s')" by (cases "service_fn svc env s")
  then have r: "fetch_outcome svc env = r" using service_fn_outcome[of svc env s] by simp
  from step have c: "cachedIpInfo s' = cachedIpInfo s" using service_fn_cache[of svc env s] by simp
  from step r c Cons.IH[of s'] show ?case by (cases r) (simp_all split: option.splits)
qed

lemma getPublicIpInfo_fresh:
  "cache_fresh cfg s \<Longrightarrow> getPublicIpInfo cfg env s = (Inr (data (the (cachedIpInfo s))), s)"
  by (auto simp: getPublicIpInfo_def cache_fresh_def Let_def split: option.splits)

lemma getPublicIpInfo_snd:
  "\<not> cache_fresh cfg s \<Longrightarrow>
   snd (getPublicIpInfo cfg env s) = snd (try_services (clock s) apiServices env s)"
  by (auto simp: getPublicIpInfo_def cache_fresh_def Let_def split: option.splits prod.splits)

lemma getPublicIpInfo_stale:
  assumes "\<not> cache_fresh cfg s"
  shows "fst (getPublicIpInfo cfg env s) =
     Inr (case first_success apiServices env of
            Some d \<Rightarrow> d
          | None \<Rightarrow> (case cachedIpInfo s of Some c \<Rightarrow> data c | None \<Rightarrow> mock_info))"
proof -
  obtain r s' where run: "try_services (clock s) apiServices env s = (r, s')"
    by (cases "try_services (clock s) apiServices env s")
  from run have r: "first_success apiServices env = r"
    using try_services_fst[of "clock s" apiServices env s] by simp
  from run have c: "cachedIpInfo s' = (case r of
        Some d \<Rightarrow> Some \<lparr>data = d, cache_timestamp = clock s\<rparr> | None \<Rightarrow> cachedIpInfo s)"
    using try_services_cache[of "clock s" apiServices env s] r by simp
  from assms have nf: "\<not> (cachedIpInfo s \<noteq> None
      \<and> clock s - cache_timestamp (the (cachedIpInfo s)) < CACHE_DURATION cfg)"
    by (auto simp: cache_fresh_def split: option.splits)
  from nf run r c show ?thesis
    by (auto simp: getPublicIpInfo_def Let_def split: option.splits)
qed

lemma getPublicIpInfo_returns: "\<exists>d. fst (getPublicIpInfo cfg env s) = Inr d"
proof (cases "cache_fresh cfg s")
  case True
  then show ?thesis by (simp add: getPublicIpInfo_fresh)
next
  case False
  then show ?thesis by (simp add: getPublicIpInfo_stale)
qed

lemma getIpApiInfo_requests:
  "requests (snd (getIpApiInfo env s)) =
     requests s @ [\<lparr>url = ''https://ip-api.com/json/'',
                    sent_at = max (clock s) (lastIpApiCall s + API_RATE_LIMITS IpApi)\<rparr>]"
  by (simp add: provider_defs split: reply.splits)










lemma getIpApiInfo_one_request:
  "length (requests (snd (getIpApiInfo env s))) = Suc (length (requests s))"
  by (simp add: getIpApiInfo_requests)

lemma try_services_IpApi:
  assumes "fetch_outcome IpApi env = Inr d"
  shows "length (requests (snd (try_services now apiServices env s))) = Suc (length (requests s))"
proof -
  obtain r s' where step: "getIpApiInfo env s = (r, s')" by (cases "getIpApiInfo env s")
  with assms have r: "r = Inr d"
    using service_fn_outcome[of IpApi env s] by simp
  from step have "length (requests s') = Suc (length (requests s))"
    using getIpApiInfo_one_request[of env s] by simp
  with step r show ?thesis by (simp add: apiServices_def)
qed


lemma all_down_fails: "first_success apiServices all_down = None"
  by (simp add: apiServices_def fetch_outcome_def provider_defs all_down_def unanswered_def)

lemma second_up_acme: "first_success apiServices second_up = Some acme"
  by (simp add: apiServices_def fetch_outcome_def provider_defs second_up_def all_down_def
      unanswered_def acme_reply_def acme_def truthy_def)

lemma first_up_globex: "fetch_outcome IpApi first_up = Inr globex"
  by (simp add: fetch_outcome_def provider_defs first_up_def all_down_def
      unanswered_def globex_reply_def globex_def)

lemma first_up_first: "first_success apiServices first_up = Some globex"
  using first_up_globex by (simp add: apiServices_def)

lemma boot_stale: "\<not> cache_fresh cfg boot"
  by (simp add: cache_fresh_def boot_def resolver0_def)

lemma first_up_from_boot: "fst (getPublicIpInfo cfg first_up boot) = Inr globex"
  using getPublicIpInfo_stale[OF boot_stale, of cfg first_up] first_up_first by simp

lemma all_down_from_boot:
  "getPublicIpInfo default_config all_down boot =
     (Inr mock_info,
      boot\<lparr>clock := 100040,
           requests :=
             [\<lparr>url = ''https://ip-api.com/json/'', sent_at = 100000\<rparr>,
              \<lparr>url = ''https://freeipapi.com/api/json'', sent_at = 100010\<rparr>,
              \<lparr>url = ''https://ipwho.is'', sent_at = 100020\<rparr>,
              \<lparr>url = ''https://api.ipify.org?format=json'', sent_at = 100030\<rparr>]\<rparr>)"
  by (simp add: getPublicIpInfo_def apiServices_def provider_defs all_down_def unanswered_def
      boot_def resolver0_def default_config_def)

text \<open>
  Claim C1, as amended. When a cache entry exists and is younger than
  \<^verbatim>\<open>CACHE_DURATION\<close>, getPublicIpInfo returns the cached record and leaves the resolver
  as it was: no provider is contacted. Otherwise it returns the record of the first
  provider, in the order ip-api.com, freeipapi.com, ipwho.is, ipify.org, whose fetch
  succeeds; if none succeeds, the cached record when an entry exists, and the fixed
  record with source \<^verbatim>\<open>'mock'\<close> when none exists. It always returns a record and never
  throws.
\<close>

theorem getPublicIpInfo_resolves:
  "fst (getPublicIpInfo cfg env s) =
     Inr (if cache_fresh cfg s then data (the (cachedIpInfo s))
          else case first_success apiServices env of
                 Some d \<Rightarrow> d
               | None \<Rightarrow> (case cachedIpInfo s of Some c \<Rightarrow> data c | None \<Rightarrow> mock_info))
   \<and> (cache_fresh cfg s \<longrightarrow> snd (getPublicIpInfo cfg env s) = s)"
proof (cases "cache_fresh cfg s")
  case True
  then have "getPublicIpInfo cfg env s = (Inr (data (the (cachedIpInfo s))), s)"
    by (rule getPublicIpInfo_fresh)
  with True show ?thesis by simp
next
  case False
  from getPublicIpInfo_stale[OF False, of env] False show ?thesis by simp
qed

text \<open>
  The claim as it was stated fails on a cache that is 10 s old and holds Globex, while
  ip-api.com fails and freeipapi.com answers Acme: the first provider whose fetch
  succeeds would give Acme, and getPublicIpInfo returns Globex.
\<close>

theorem getPublicIpInfo_fresh_cache_wins:
  "first_success apiServices second_up = Some acme
   \<and> fst (getPublicIpInfo default_config second_up (cached globex 10000)) = Inr globex
   \<and> globex \<noteq> acme"
proof -
  have "cache_fresh default_config (cached globex 10000)"
    by (simp add: cache_fresh_def cached_def boot_def resolver0_def default_config_def)
  then have "fst (getPublicIpInfo default_config second_up (cached globex 10000)) = Inr globex"
    by (simp add: getPublicIpInfo_fresh cached_def)
  moreover have "globex \<noteq> acme" by (simp add: globex_def acme_def)
  ultimately show ?thesis using second_up_acme by simp
qed

theorem getPublicIpInfo_resolves_witness:
  "cache_fresh default_config (cached globex 10000)
   \<and> getPublicIpInfo default_config second_up (cached globex 10000)
       = (Inr globex, cached globex 10000)
   \<and> \<not> cache_fresh default_config (cached acme 40000)
   \<and> fst (getPublicIpInfo default_config all_down (cached acme 40000)) = Inr acme
   \<and> fst (getPublicIpInfo default_config second_up boot) = Inr acme
   \<and> fst (getPublicIpInfo default_config all_down boot) = Inr mock_info"
proof -
  have f: "cache_fresh default_config (cached globex 10000)"
    and c: "data (the (cachedIpInfo (cached globex 10000))) = globex"
    by (simp_all add: cache_fresh_def cached_def boot_def resolver0_def default_config_def)
  have st: "\<not> cache_fresh default_config (cached acme 40000)"
    and sc: "cachedIpInfo (cached acme 40000) = Some \<lparr>data = acme, cache_timestamp = 60000\<rparr>"
    by (simp_all add: cache_fresh_def cached_def boot_def resolver0_def default_config_def)
  have bc: "cachedIpInfo boot = None" by (simp add: boot_def resolver0_def)
  from getPublicIpInfo_resolves[of default_config second_up "cached globex 10000"] f c
  have 1: "getPublicIpInfo default_config second_up (cached globex 10000)
       = (Inr globex, cached globex 10000)"
    by (simp add: prod_eq_iff)
  from getPublicIpInfo_resolves[of default_config all_down "cached acme 40000"] st sc
    all_down_fails
  have 2: "fst (getPublicIpInfo default_config all_down (cached acme 40000)) = Inr acme"
    by simp
  from getPublicIpInfo_resolves[of default_config second_up boot] boot_stale second_up_acme
  have 3: "fst (getPublicIpInfo default_config second_up boot) = Inr acme"
    by simp
  from getPublicIpInfo_resolves[of default_config all_down boot] boot_stale all_down_fails bc
  have 4: "fst (getPublicIpInfo default_config all_down boot) = Inr mock_info"
    by simp
  from f st 1 2 3 4 show ?thesis by blast
qed

text \<open>
  Claim C5, as amended. Let a call of getPublicIpInfo find no fresh cache entry and get
  its record \<open>d\<close> from a provider, and let a second call be entered less than
  \<^verbatim>\<open>CACHE_DURATION\<close> after the first was entered, with nothing but the clock changed in
  between. The second call returns the same record \<open>d\<close> and leaves the resolver as it
  found it: it sends no request. The requests of the two calls are those of the first
  call alone; there is exactly one when ip-api.com, the first provider, answered.
\<close>

theorem getPublicIpInfo_cached_repeat:
  assumes "\<not> cache_fresh cfg s"
    and "first_success apiServices env1 = Some d"
    and "t2 - clock s < CACHE_DURATION cfg"
    and "s1 = snd (getPublicIpInfo cfg env1 s)"
  shows "fst (getPublicIpInfo cfg env1 s) = Inr d
       \<and> getPublicIpInfo cfg env2 (s1\<lparr>clock := t2\<rparr>) = (Inr d, s1\<lparr>clock := t2\<rparr>)
       \<and> (fetch_outcome IpApi env1 = Inr d \<longrightarrow>
            length (requests (snd (getPublicIpInfo cfg env2 (s1\<lparr>clock := t2\<rparr>))))
              = Suc (length (requests s)))"
proof -
  from assms(1,2) have first: "fst (getPublicIpInfo cfg env1 s) = Inr d"
    by (simp add: getPublicIpInfo_stale)
  from assms(1,4) have "s1 = snd (try_services (clock s) apiServices env1 s)"
    by (simp add: getPublicIpInfo_snd)
  with assms(2) have cache: "cachedIpInfo s1 = Some \<lparr>data = d, cache_timestamp = clock s\<rparr>"
    by (simp add: try_services_cache)
  with assms(3) have "cache_fresh cfg (s1\<lparr>clock := t2\<rparr>)"
    by (simp add: cache_fresh_def)
  then have second: "getPublicIpInfo cfg env2 (s1\<lparr>clock := t2\<rparr>)
      = (Inr (data (the (cachedIpInfo (s1\<lparr>clock := t2\<rparr>)))), s1\<lparr>clock := t2\<rparr>)"
    by (rule getPublicIpInfo_fresh)
  with cache have second': "getPublicIpInfo cfg env2 (s1\<lparr>clock := t2\<rparr>) = (Inr d, s1\<lparr>clock := t2\<rparr>)"
    by simp
  have "length (requests s1) = Suc (length (requests s))" if "fetch_outcome IpApi env1 = Inr d"
    using that assms(1,4) by (simp add: getPublicIpInfo_snd try_services_IpApi)
  with first second' show ?thesis by simp
qed

text \<open>
  The claim as it was stated fails when the fetches of the first call all fail. Starting
  with no cache, the first call tries every provider and returns the mock record; a
  second call one second later finds freeipapi.com answering and returns Acme, after
  two more requests.
\<close>

theorem getPublicIpInfo_refetch_after_failure:
  "\<not> cache_fresh default_config boot
   \<and> length (requests (snd (getPublicIpInfo default_config all_down boot))) = 4
   \<and> fst (getPublicIpInfo default_config all_down boot) = Inr mock_info
   \<and> 101000 - clock boot < CACHE_DURATION default_config
   \<and> fst (getPublicIpInfo default_config second_up
            ((snd (getPublicIpInfo default_config all_down boot))\<lparr>clock := 101000\<rparr>)) = Inr acme
   \<and> mock_info \<noteq> acme
   \<and> length (requests (snd (getPublicIpInfo default_config second_up
            ((snd (getPublicIpInfo default_config all_down boot))\<lparr>clock := 101000\<rparr>)))) = 6"
proof -
  let ?s1 = "(snd (getPublicIpInfo default_config all_down boot))\<lparr>clock := 101000\<rparr>"
  have stale: "\<not> cache_fresh default_config ?s1"
    unfolding all_down_from_boot by (simp add: cache_fresh_def boot_def resolver0_def)
  have "cachedIpInfo ?s1 = None"
    unfolding all_down_from_boot by (simp add: boot_def resolver0_def)
  with stale second_up_acme
  have again: "fst (getPublicIpInfo default_config second_up ?s1) = Inr acme"
    by (simp add: getPublicIpInfo_stale)
  have "requests (snd (getPublicIpInfo default_config second_up ?s1)) =
      requests ?s1 @
      [\<lparr>url = ''https://ip-api.com/json/'', sent_at = 101000\<rparr>,
       \<lparr>url = ''https://freeipapi.com/api/json'', sent_at = 101010\<rparr>]"
    unfolding all_down_from_boot
    by (simp add: getPublicIpInfo_def default_config_def apiServices_def provider_defs
        second_up_def all_down_def unanswered_def acme_reply_def boot_def resolver0_def)
  then have six: "length (requests (snd (getPublicIpInfo default_config second_up ?s1))) = 6"
    unfolding all_down_from_boot by simp
  have "mock_info \<noteq> acme" by (simp add: mock_info_def acme_def)
  moreover have "101000 - clock boot < CACHE_DURATION default_config"
    by (simp add: boot_def resolver0_def default_config_def)
  moreover have "length (requests (snd (getPublicIpInfo default_config all_down boot))) = 4"
    and "fst (getPublicIpInfo default_config all_down boot) = Inr mock_info"
    unfolding all_down_from_boot by simp_all
  ultimately show ?thesis
    using again six boot_stale by blast
qed

theorem getPublicIpInfo_cached_repeat_witness:
  "\<not> cache_fresh default_config boot
   \<and> first_success apiServices first_up = Some globex
   \<and> 120000 - clock boot < CACHE_DURATION default_config
   \<and> fetch_outcome IpApi first_up = Inr globex
   \<and> fst (getPublicIpInfo default_config first_up boot) = Inr globex
   \<and> getPublicIpInfo default_config all_down
        ((snd (getPublicIpInfo default_config first_up boot))\<lparr>clock := 120000\<rparr>)
       = (Inr globex, (snd (getPublicIpInfo default_config first_up boot))\<lparr>clock := 120000\<rparr>)
   \<and> length (requests (snd (getPublicIpInfo default_config all_down
        ((snd (getPublicIpInfo default_config first_up boot))\<lparr>clock := 120000\<rparr>))))
       = Suc (length (requests boot))"
proof -
  have fs: "first_success apiServices first_up = Some globex"
    by (rule first_up_first)
  have t: "120000 - clock boot < CACHE_DURATION default_config"
    by (simp add: boot_def resolver0_def default_config_def)
  from getPublicIpInfo_cached_repeat[OF boot_stale fs t refl, of all_down]
    boot_stale fs t first_up_globex
  show ?thesis by blast
qed




section \<open>MetricsAggregator and Scheduler\<close>

lemma retry_unfold3:
  "getMetricsWithRetry pause fn s =
     (case fn s of
        (Inr v, s1) \<Rightarrow> (Inr (Some v), s1)
      | (Inl e1, s1) \<Rightarrow>
          (case fn (pause 1000 s1) of
             (Inr v, s2) \<Rightarrow> (Inr (Some v), s2)
           | (Inl e2, s2) \<Rightarrow>
               (case fn (pause 2000 s2) of
                  (Inr v, s3) \<Rightarrow> (Inr (Some v), s3)
                | (Inl e3, s3) \<Rightarrow> (Inl e3, s3))))"
proof -
  have three: "getMetricsWithRetry_loop pause fn 3 (Suc (Suc 0)) t =
      (case fn t of (Inr v, s3) \<Rightarrow> (Inr (Some v), s3) | (Inl e3, s3) \<Rightarrow> (Inl e3, s3))" for t
    by (subst getMetricsWithRetry_loop.simps) (simp split: prod.splits sum.splits)
  have two: "getMetricsWithRetry_loop pause fn 3 (Suc 0) t =
      (case fn t of (Inr v, s2) \<Rightarrow> (Inr (Some v), s2)
       | (Inl e2, s2) \<Rightarrow> getMetricsWithRetry_loop pause fn 3 (Suc (Suc 0)) (pause 2000 s2))" for t
    by (subst getMetricsWithRetry_loop.simps) (simp split: prod.splits sum.splits)
  have one: "getMetricsWithRetry_loop pause fn 3 0 t =
      (case fn t of (Inr v, s1) \<Rightarrow> (Inr (Some v), s1)
       | (Inl e1, s1) \<Rightarrow> getMetricsWithRetry_loop pause fn 3 (Suc 0) (pause 1000 s1))" for t
    by (subst getMetricsWithRetry_loop.simps) (simp split: prod.splits sum.splits)
  show ?thesis
    unfolding getMetricsWithRetry_def one two three ..
qed

lemma probe_with_retry_eq:
  "probe_with_retry answers =
     (case first_answer answers of Inl e \<Rightarrow> Inl e | Inr v \<Rightarrow> Inr (Some v))"
  by (simp add: probe_with_retry_def retry_unfold3 probe_def first_answer_def numeral_2_eq_2
      split: sum.splits)

lemma probe_exhausted:
  "exhausted answers \<Longrightarrow> isl (probe_with_retry answers)"
  by (auto simp: probe_with_retry_eq exhausted_def first_answer_def split: sum.splits)

lemma probe_answers:
  "\<not> exhausted answers \<Longrightarrow> probe_with_retry answers = Inr (Some (projr (first_answer answers)))"
  by (auto simp: probe_with_retry_eq exhausted_def first_answer_def split: sum.splits)

lemma identity_with_retry:
  "getMetricsWithRetry sleep (getPublicIpInfo cfg env) rs =
     (Inr (Some (projr (fst (getPublicIpInfo cfg env rs)))), snd (getPublicIpInfo cfg env rs))"
proof -
  obtain r rs' where run: "getPublicIpInfo cfg env rs = (r, rs')"
    by (cases "getPublicIpInfo cfg env rs")
  with getPublicIpInfo_returns[of cfg env rs] obtain d where "r = Inr d" by auto
  with run show ?thesis by (simp add: retry_unfold3)
qed


lemma isp_check_pool: "pool (database (isp_check cfg env info s)) = pool (database s)"
  by (simp add: isp_check_def Let_def checkAndLogIspChange_pool)

lemma getNetworkMetrics_exhausted:
  assumes "exhausted (networkStats_at env) \<or> exhausted (inetLatency_at env)
         \<or> exhausted (currentLoad_at env) \<or> exhausted (mem_at env) \<or> exhausted (time_at env)"
  shows "getNetworkMetrics cfg env s =
           (None, s\<lparr>resolver := snd (getPublicIpInfo cfg (net env) (resolver s))\<rparr>)"
proof -
  from assms have "isl (probe_with_retry (networkStats_at env))
      \<or> isl (probe_with_retry (inetLatency_at env))
      \<or> isl (probe_with_retry (currentLoad_at env))
      \<or> isl (probe_with_retry (mem_at env))
      \<or> isl (probe_with_retry (time_at env))"
    by (auto dest: probe_exhausted)
  then have "isl (promise_all6 (probe_with_retry (networkStats_at env))
                             (probe_with_retry (inetLatency_at env))
                             (Inr (Some (projr (fst (getPublicIpInfo cfg (net env) (resolver s))))))
                             (probe_with_retry (currentLoad_at env))
                             (probe_with_retry (mem_at env))
                             (probe_with_retry (time_at env)))"
    by (auto simp: promise_all6_def split: sum.splits)
  then show ?thesis
    by (auto simp: getNetworkMetrics_def getNetworkMetrics_try_def identity_with_retry
        split: sum.splits)
qed

lemma getNetworkMetrics_joined:
  assumes "\<not> exhausted (networkStats_at env)" "\<not> exhausted (inetLatency_at env)"
    "\<not> exhausted (currentLoad_at env)" "\<not> exhausted (mem_at env)" "\<not> exhausted (time_at env)"
  shows "getNetworkMetrics_try cfg env s =
     (let info = Some (projr (fst (getPublicIpInfo cfg (net env) (resolver s))));
          s1 = isp_check cfg env info
                 (s\<lparr>resolver := sleep (int (settle env))
                                  (snd (getPublicIpInfo cfg (net env) (resolver s)))\<rparr>)
      in case select_timestamp env (database s1) of
           (Inl e, d) \<Rightarrow> (Inl e, s1\<lparr>database := d\<rparr>)
         | (Inr ts, d) \<Rightarrow>
             (build_snapshot ts (Some (projr (first_answer (networkStats_at env))))
                (Some (projr (first_answer (inetLatency_at env)))) info
                (Some (projr (first_answer (currentLoad_at env))))
                (Some (projr (first_answer (mem_at env))))
                (Some (projr (first_answer (time_at env)))), s1\<lparr>database := d\<rparr>))"
  using assms
  by (simp add: getNetworkMetrics_try_def identity_with_retry probe_answers promise_all6_def
      Let_def)

lemma getNetworkMetrics_no_timestamp:
  assumes "\<not> exhausted (networkStats_at env)" "\<not> exhausted (inetLatency_at env)"
    "\<not> exhausted (currentLoad_at env)" "\<not> exhausted (mem_at env)" "\<not> exhausted (time_at env)"
    and "\<not> pool (database s) \<or> isl (timestamp_query env)"
  shows "fst (getNetworkMetrics cfg env s) = None"
  using assms(6)
  by (auto simp: getNetworkMetrics_def getNetworkMetrics_joined[OF assms(1-5)]
      select_timestamp_def isp_check_pool Let_def split: sum.splits)

lemma service_fn_clock: "clock s \<le> clock (snd (service_fn svc env s))"
  by (cases svc)
     (simp_all add: provider_defs max_def split: reply.splits option.splits list.splits)

lemma try_services_clock: "clock s \<le> clock (snd (try_services now svcs env s))"
proof (induction svcs arbitrary: s)
  case Nil
  then show ?case by simp
next
  case (Cons svc rest)
  obtain r s' where step: "service_fn svc env s = (r, s')" by (cases "service_fn svc env s")
  then have "clock s \<le> clock s'" using service_fn_clock[of s svc env] by simp
  moreover have "clock s' \<le> clock (snd (try_services now rest env s'))" by (rule Cons.IH)
  ultimately show ?case using step by (cases r) simp_all
qed

lemma getPublicIpInfo_clock: "clock s \<le> clock (snd (getPublicIpInfo cfg env s))"
proof (cases "cache_fresh cfg s")
  case True
  then show ?thesis by (simp add: getPublicIpInfo_fresh)
next
  case False
  then show ?thesis by (simp add: getPublicIpInfo_snd try_services_clock)
qed

lemma calm_probes:
  "\<not> exhausted (networkStats_at calm)" "\<not> exhausted (inetLatency_at calm)"
  "\<not> exhausted (currentLoad_at calm)" "\<not> exhausted (mem_at calm)"
  "\<not> exhausted (time_at calm)"
  by (simp_all add: exhausted_def calm_def)

lemma offline_probes:
  "\<not> exhausted (networkStats_at offline)" "\<not> exhausted (inetLatency_at offline)"
  "\<not> exhausted (currentLoad_at offline)" "\<not> exhausted (mem_at offline)"
  "\<not> exhausted (time_at offline)"
  by (simp_all add: exhausted_def offline_def calm_def)

lemma stats_down_exhausted: "exhausted (networkStats_at stats_down)"
  by (simp add: exhausted_def stats_down_def)

text \<open>
  Claim C3, as amended. Each tick of the monitoring loop stores what getNetworkMetrics
  returned in \<^verbatim>\<open>currentMetrics\<close>, whether it is a snapshot or \<^verbatim>\<open>null\<close>. After a tick
  whose sample is \<^verbatim>\<open>null\<close> the current snapshot is \<^verbatim>\<open>null\<close> and a subscriber is sent
  nothing, on its push tick and on connecting; after a tick whose sample is a snapshot,
  that snapshot is current and is what an open subscriber is sent. In particular a tick
  during which a probe exhausts its attempts leaves no current snapshot, whatever was
  published before.
\<close>

theorem monitoring_tick_publishes_sample:
  "currentMetrics (monitoring_tick cfg env s) = fst (getNetworkMetrics cfg env s)
   \<and> push_tick ws_open (monitoring_tick cfg env s) =
       (case fst (getNetworkMetrics cfg env s) of
          Some m \<Rightarrow> if ws_open then [m] else []
        | None \<Rightarrow> [])
   \<and> on_connection (monitoring_tick cfg env s) =
       (case fst (getNetworkMetrics cfg env s) of Some m \<Rightarrow> [m] | None \<Rightarrow> [])
   \<and> (exhausted (networkStats_at env) \<or> exhausted (inetLatency_at env)
        \<or> exhausted (currentLoad_at env) \<or> exhausted (mem_at env) \<or> exhausted (time_at env)
       \<longrightarrow> currentMetrics (monitoring_tick cfg env s) = None
           \<and> push_tick ws_open (monitoring_tick cfg env s) = [])"
proof -
  obtain m s' where run: "getNetworkMetrics cfg env s = (m, s')"
    by (cases "getNetworkMetrics cfg env s")
  then have tick: "monitoring_tick cfg env s = s'\<lparr>currentMetrics := m\<rparr>"
    by (simp add: monitoring_tick_def)
  have "m = None"
    if "exhausted (networkStats_at env) \<or> exhausted (inetLatency_at env)
        \<or> exhausted (currentLoad_at env) \<or> exhausted (mem_at env) \<or> exhausted (time_at env)"
    using getNetworkMetrics_exhausted[OF that, of cfg s] run by simp
  with run tick show ?thesis
    by (cases m) (auto simp: push_tick_def on_connection_def)
qed

text \<open>
  The claim as it was stated fails on a server that has published a snapshot, in a tick
  during which the network counters cannot be read: the sample is \<^verbatim>\<open>null\<close>, the snapshot
  is gone, and the next push sends nothing.
\<close>

theorem monitoring_tick_drops_snapshot:
  "currentMetrics live_server = Some earlier_snapshot
   \<and> fst (getNetworkMetrics default_config stats_down live_server) = None
   \<and> currentMetrics (monitoring_tick default_config stats_down live_server) = None
   \<and> push_tick True (monitoring_tick default_config stats_down live_server) = []"
proof -
  have "getNetworkMetrics default_config stats_down live_server =
          (None, live_server\<lparr>resolver :=
             snd (getPublicIpInfo default_config (net stats_down) (resolver live_server))\<rparr>)"
    using stats_down_exhausted by (simp add: getNetworkMetrics_exhausted)
  then show ?thesis
    by (simp add: monitoring_tick_def push_tick_def live_server_def)
qed

theorem monitoring_tick_publishes_sample_witness:
  "exhausted (networkStats_at stats_down)
   \<and> currentMetrics live_server = Some earlier_snapshot
   \<and> currentMetrics (monitoring_tick default_config stats_down live_server) = None
   \<and> push_tick True (monitoring_tick default_config stats_down live_server) = []
   \<and> on_connection (monitoring_tick default_config stats_down live_server) = []"
proof -
  have l: "currentMetrics live_server = Some earlier_snapshot"
    by (simp add: live_server_def)
  from monitoring_tick_publishes_sample[of default_config stats_down live_server True]
    stats_down_exhausted
  have "currentMetrics (monitoring_tick default_config stats_down live_server) = None
      \<and> push_tick True (monitoring_tick default_config stats_down live_server) = []
      \<and> on_connection (monitoring_tick default_config stats_down live_server) = []"
    by (auto split: option.splits)
  with l stats_down_exhausted show ?thesis by blast
qed

text \<open>
  Claim C4, as amended. getNetworkMetrics returns \<^verbatim>\<open>null\<close> when one of the probes
  exhausts its three attempts, and also when the pool is undefined or the query for the
  time fails. When no probe exhausts its attempts, the list of network counters is not
  empty and the query for the time succeeds, it returns a snapshot: the timestamp is the
  one queried, the identity is the one getPublicIpInfo returned (which never fails), the
  metrics are computed from the first answers of the probes. No snapshot it returns
  lacks the identity; the other fields cannot be absent.
\<close>

theorem getNetworkMetrics_all_or_nothing:
  "(exhausted (networkStats_at env) \<or> exhausted (inetLatency_at env)
      \<or> exhausted (currentLoad_at env) \<or> exhausted (mem_at env) \<or> exhausted (time_at env)
      \<or> \<not> pool (database s) \<or> isl (timestamp_query env)
     \<longrightarrow> fst (getNetworkMetrics cfg env s) = None)
   \<and> (\<not> exhausted (networkStats_at env) \<and> \<not> exhausted (inetLatency_at env)
      \<and> \<not> exhausted (currentLoad_at env) \<and> \<not> exhausted (mem_at env)
      \<and> \<not> exhausted (time_at env)
      \<and> pool (database s) \<and> timestamp_query env = Inr ts
      \<and> projr (first_answer (networkStats_at env)) \<noteq> []
     \<longrightarrow> (\<exists>m. fst (getNetworkMetrics cfg env s) = Some m
              \<and> timestamp m = ts
              \<and> publicIpInfo m = Some (projr (fst (getPublicIpInfo cfg (net env) (resolver s))))
              \<and> cpuLoad (systemMetrics m) = currentLoad (projr (first_answer (currentLoad_at env)))))
   \<and> (\<forall>m. fst (getNetworkMetrics cfg env s) = Some m \<longrightarrow>
        publicIpInfo m = Some (projr (fst (getPublicIpInfo cfg (net env) (resolver s)))))"
proof (cases "exhausted (networkStats_at env) \<or> exhausted (inetLatency_at env)
         \<or> exhausted (currentLoad_at env) \<or> exhausted (mem_at env) \<or> exhausted (time_at env)")
  case True
  then show ?thesis by (auto simp: getNetworkMetrics_exhausted)
next
  case False
  then have j: "\<not> exhausted (networkStats_at env)" "\<not> exhausted (inetLatency_at env)"
    "\<not> exhausted (currentLoad_at env)" "\<not> exhausted (mem_at env)" "\<not> exhausted (time_at env)"
    by simp_all
  show ?thesis
    using False
    by (cases "projr (first_answer (networkStats_at env))")
       (auto simp: getNetworkMetrics_def getNetworkMetrics_joined[OF j] select_timestamp_def
          isp_check_pool build_snapshot_def Let_def split: sum.splits)
qed

text \<open>
  The claim as it was stated fails when the six sub-fetches succeed and the query for
  the time fails: every probe answers at its first attempt, the identity lookup returns
  the record of ip-api.com, and getNetworkMetrics returns \<^verbatim>\<open>null\<close>.
\<close>

theorem getNetworkMetrics_null_without_timestamp:
  "\<not> exhausted (networkStats_at time_query_down)
   \<and> \<not> exhausted (inetLatency_at time_query_down)
   \<and> \<not> exhausted (currentLoad_at time_query_down)
   \<and> \<not> exhausted (mem_at time_query_down)
   \<and> \<not> exhausted (time_at time_query_down)
   \<and> fst (getPublicIpInfo default_config (net time_query_down) (resolver server0)) = Inr globex
   \<and> fst (getNetworkMetrics default_config time_query_down server0) = None"
proof -
  have p: "\<not> exhausted (networkStats_at time_query_down)"
    "\<not> exhausted (inetLatency_at time_query_down)"
    "\<not> exhausted (currentLoad_at time_query_down)"
    "\<not> exhausted (mem_at time_query_down)"
    "\<not> exhausted (time_at time_query_down)"
    by (simp_all add: exhausted_def time_query_down_def calm_def)
  have "net time_query_down = first_up" "resolver server0 = boot"
    by (simp_all add: time_query_down_def calm_def server0_def)
  then have i: "fst (getPublicIpInfo default_config (net time_query_down) (resolver server0))
      = Inr globex"
    by (simp add: first_up_from_boot)
  have "isl (timestamp_query time_query_down)"
    by (simp add: time_query_down_def)
  then have "fst (getNetworkMetrics default_config time_query_down server0) = None"
    using p by (simp add: getNetworkMetrics_no_timestamp)
  with p i show ?thesis by blast
qed

theorem getNetworkMetrics_all_or_nothing_witness:
  "exhausted (networkStats_at stats_down)
   \<and> fst (getNetworkMetrics default_config stats_down server0) = None
   \<and> \<not> exhausted (networkStats_at calm) \<and> \<not> exhausted (inetLatency_at calm)
   \<and> \<not> exhausted (currentLoad_at calm) \<and> \<not> exhausted (mem_at calm)
   \<and> \<not> exhausted (time_at calm)
   \<and> pool (database server0) \<and> timestamp_query calm = Inr ''2026-01-01 00:00:00''
   \<and> projr (first_answer (networkStats_at calm)) \<noteq> []
   \<and> (\<exists>m. fst (getNetworkMetrics default_config calm server0) = Some m
          \<and> timestamp m = ''2026-01-01 00:00:00''
          \<and> publicIpInfo m = Some globex
          \<and> cpuLoad (systemMetrics m) = 5)"
proof -
  have a: "pool (database server0)" "timestamp_query calm = Inr ''2026-01-01 00:00:00''"
    "projr (first_answer (networkStats_at calm)) \<noteq> []"
    "currentLoad (projr (first_answer (currentLoad_at calm))) = 5"
    by (simp_all add: server0_def empty_store_def calm_def first_answer_def)
  have "net calm = first_up" "resolver server0 = boot"
    by (simp_all add: calm_def server0_def)
  then have i: "projr (fst (getPublicIpInfo default_config (net calm) (resolver server0)))
      = globex"
    by (simp add: first_up_from_boot)
  from getNetworkMetrics_all_or_nothing[of stats_down server0 default_config]
    stats_down_exhausted
  have 1: "fst (getNetworkMetrics default_config stats_down server0) = None" by blast
  from getNetworkMetrics_all_or_nothing[of calm server0 default_config
      "''2026-01-01 00:00:00''"] calm_probes a(1-3)
  have "\<exists>m. fst (getNetworkMetrics default_config calm server0) = Some m
          \<and> timestamp m = ''2026-01-01 00:00:00''
          \<and> publicIpInfo m
              = Some (projr (fst (getPublicIpInfo default_config (net calm) (resolver server0))))
          \<and> cpuLoad (systemMetrics m) = currentLoad (projr (first_answer (currentLoad_at calm)))"
    by blast
  with i a(4)
  have 2: "\<exists>m. fst (getNetworkMetrics default_config calm server0) = Some m
          \<and> timestamp m = ''2026-01-01 00:00:00''
          \<and> publicIpInfo m = Some globex
          \<and> cpuLoad (systemMetrics m) = 5"
    by simp
  from 1 2 stats_down_exhausted calm_probes a(1-3) show ?thesis by blast
qed

text \<open>
  Claim C10. The mock record has a non-empty \<^verbatim>\<open>isp\<close> and a non-empty \<^verbatim>\<open>ip\<close>. So when
  there is no cache and every provider fails, the probes answer, and the interval of
  the ISP check has elapsed, getNetworkMetrics hands \<^verbatim>\<open>'Unknown'\<close> and
  \<^verbatim>\<open>'000.000.000.000'\<close> to checkAndLogIspChange; with a working database whose newest
  row is of another ISP (or which is empty), the table gets a new active row for the
  ISP \<^verbatim>\<open>'Unknown'\<close>, after the rows of the previous ISP are deactivated.
\<close>

theorem sentinel_identity_is_logged:
  assumes "cachedIpInfo (resolver s) = None"
    and "first_success apiServices (net env) = None"
    and "\<not> exhausted (networkStats_at env)" "\<not> exhausted (inetLatency_at env)"
    "\<not> exhausted (currentLoad_at env)" "\<not> exhausted (mem_at env)" "\<not> exhausted (time_at env)"
    and "ISP_CHECK_INTERVAL cfg \<le> clock (resolver s) - lastIspCheck s"
    and "pool (database s)" "\<not> select_fails (isp_db env)" "\<not> update_fails (isp_db env)"
    "\<not> insert_fails (isp_db env)"
    and "case newest None (swap (database s)) of None \<Rightarrow> True | Some l \<Rightarrow> row_isp l \<noteq> ''Unknown''"
  shows "truthy (isp mock_info) \<and> truthy (ip mock_info)
    \<and> fst (getPublicIpInfo cfg (net env) (resolver s)) = Inr mock_info
    \<and> swap (database (snd (getNetworkMetrics cfg env s))) =
        (case newest None (swap (database s)) of None \<Rightarrow> swap (database s)
         | Some l \<Rightarrow> deactivate (row_isp l) (swap (database s)))
        @ [\<lparr>row_isp = ''Unknown'', row_ip = ''000.000.000.000'',
            row_timestamp = db_now (isp_db env), uplink = 1\<rparr>]"
proof -
  have t: "truthy (isp mock_info)" "truthy (ip mock_info)"
    by (simp_all add: truthy_def mock_info_def)
  have m: "isp mock_info = Some ''Unknown''" "ip mock_info = Some ''000.000.000.000''"
    by (simp_all add: mock_info_def)
  from assms(1) have "\<not> cache_fresh cfg (resolver s)" by (simp add: cache_fresh_def)
  with assms(1,2) have id: "fst (getPublicIpInfo cfg (net env) (resolver s)) = Inr mock_info"
    by (simp add: getPublicIpInfo_stale)
  let ?rs = "snd (getPublicIpInfo cfg (net env) (resolver s))"
  have "clock (resolver s) \<le> clock ?rs" by (rule getPublicIpInfo_clock)
  with assms(8) have due: "ISP_CHECK_INTERVAL cfg \<le> clock ?rs + int (settle env) - lastIspCheck s"
    by simp
  let ?s0 = "s\<lparr>resolver := sleep (int (settle env)) ?rs\<rparr>"
  let ?d = "snd (checkAndLogIspChange (isp_db env) ''Unknown'' ''000.000.000.000'' (database s))"
  from due t m have chk: "isp_check cfg env (Some mock_info) ?s0
      = ?s0\<lparr>database := ?d, lastIspCheck := clock ?rs + int (settle env)\<rparr>"
    by (simp add: isp_check_def Let_def sleep_def)
  have sw: "swap ?d = (case newest None (swap (database s)) of None \<Rightarrow> swap (database s)
         | Some l \<Rightarrow> deactivate (row_isp l) (swap (database s)))
        @ [\<lparr>row_isp = ''Unknown'', row_ip = ''000.000.000.000'',
            row_timestamp = db_now (isp_db env), uplink = 1\<rparr>]"
    using assms(9-13)
    by (simp add: checkAndLogIspChange_def checkAndLogIspChange_try_def select_last_log_def
      update_uplink_def insert_swap_def send_def Let_def split: option.splits)
  have "swap (database (snd (getNetworkMetrics cfg env s))) = swap ?d"
    using id chk
    by (simp add: getNetworkMetrics_def getNetworkMetrics_joined[OF assms(3-7)] Let_def
        select_timestamp_def send_def split: sum.splits prod.splits)
  with sw t id show ?thesis by simp
qed

theorem sentinel_identity_is_logged_witness:
  "cachedIpInfo (resolver server0) = None
   \<and> first_success apiServices (net offline) = None
   \<and> \<not> exhausted (networkStats_at offline) \<and> \<not> exhausted (inetLatency_at offline)
   \<and> \<not> exhausted (currentLoad_at offline) \<and> \<not> exhausted (mem_at offline)
   \<and> \<not> exhausted (time_at offline)
   \<and> ISP_CHECK_INTERVAL default_config \<le> clock (resolver server0) - lastIspCheck server0
   \<and> pool (database server0) \<and> \<not> select_fails (isp_db offline) \<and> \<not> update_fails (isp_db offline)
   \<and> \<not> insert_fails (isp_db offline)
   \<and> newest None (swap (database server0)) = None
   \<and> swap (database (snd (getNetworkMetrics default_config offline server0))) =
       [\<lparr>row_isp = ''Unknown'', row_ip = ''000.000.000.000'', row_timestamp = 500, uplink = 1\<rparr>]"
proof -
  have c: "cachedIpInfo (resolver server0) = None"
    by (simp add: server0_def boot_def resolver0_def)
  have f: "first_success apiServices (net offline) = None"
    using all_down_fails by (simp add: offline_def calm_def)
  have due: "ISP_CHECK_INTERVAL default_config \<le> clock (resolver server0) - lastIspCheck server0"
    by (simp add: default_config_def server0_def boot_def resolver0_def)
  have d: "pool (database server0)" "\<not> select_fails (isp_db offline)"
    "\<not> update_fails (isp_db offline)" "\<not> insert_fails (isp_db offline)"
    by (simp_all add: server0_def empty_store_def offline_def calm_def db_at_def)
  have n: "newest None (swap (database server0)) = None"
    and t: "swap (database server0) = []" "db_now (isp_db offline) = 500"
    by (simp_all add: server0_def empty_store_def offline_def calm_def db_at_def)
  from n have l: "case newest None (swap (database server0)) of None \<Rightarrow> True
                  | Some l \<Rightarrow> row_isp l \<noteq> ''Unknown''"
    by simp
  from sentinel_identity_is_logged[OF c f offline_probes due d l] n t
  have "swap (database (snd (getNetworkMetrics default_config offline server0))) =
       [\<lparr>row_isp = ''Unknown'', row_ip = ''000.000.000.000'', row_timestamp = 500, uplink = 1\<rparr>]"
    by simp
  with c f offline_probes due d n show ?thesis by blast
qed

end
